theory Spec2Isabelle
  imports Complex_Main "HOL-Library.AList" "HOL-Library.Char_ord" "HOL-Library.List_Lexorder"
begin

section \<open>Python values\<close>

text \<open>
  The three scripts exchange data through JSON files (\<^verbatim>\<open>movers.json\<close>,
  \<^verbatim>\<open>subsequent_cache.json\<close>), so a Python value is a JSON value. Numbers
  (Python \<^verbatim>\<open>int\<close> and \<^verbatim>\<open>float\<close>) are exact rationals: the rounding error of
  binary floating point, NaN, infinities and the negative zero are outside the model.
  A string is a list of ASCII characters. A dict is an association list read with
  \<open>map_of\<close> and written with \<open>AList.update\<close>.
\<close>

datatype json =
    JNull
  | JBool bool
  | JNum rat
  | JStr string
  | JArr "json list"
  | JObj "(string \<times> json) list"

datatype error = IndexError | TypeError | AttributeError | KeyError | OverflowError | OSError

text \<open>A file on disk: absent, present but not parseable as JSON, or holding a JSON value.\<close>

datatype json_file = Missing | Garbage | Content json

definition ebind :: "error + 'a \<Rightarrow> ('a \<Rightarrow> error + 'b) \<Rightarrow> error + 'b" where
  "ebind m f = (case m of Inl e \<Rightarrow> Inl e | Inr x \<Rightarrow> f x)"

text \<open>A \<^verbatim>\<open>for\<close> loop over a list that threads a state and stops at the first exception.\<close>

fun efold :: "('a \<Rightarrow> 's \<Rightarrow> error + 's) \<Rightarrow> 'a list \<Rightarrow> 's \<Rightarrow> error + 's" where
  "efold f [] s = Inr s"
| "efold f (x # xs) s = (case f x s of Inl e \<Rightarrow> Inl e | Inr s' \<Rightarrow> efold f xs s')"

text \<open>Truthiness (\<^verbatim>\<open>if not s\<close>, \<^verbatim>\<open>x or y\<close>).\<close>

definition truthy :: "json \<Rightarrow> bool" where
  "truthy v = (case v of JNull \<Rightarrow> False | JBool b \<Rightarrow> b | JNum r \<Rightarrow> r \<noteq> 0
     | JStr s \<Rightarrow> s \<noteq> [] | JArr xs \<Rightarrow> xs \<noteq> [] | JObj kvs \<Rightarrow> kvs \<noteq> [])"

definition dict_keys :: "(string \<times> json) list \<Rightarrow> string list" where
  "dict_keys kvs = remdups (map fst kvs)"

text \<open>\<^verbatim>\<open>d.get(k, default)\<close>: only a dict has the method.\<close>

definition py_get :: "json \<Rightarrow> string \<Rightarrow> json \<Rightarrow> error + json" where
  "py_get d k dflt = (case d of
       JObj kvs \<Rightarrow> Inr (case map_of kvs k of None \<Rightarrow> dflt | Some v \<Rightarrow> v)
     | _ \<Rightarrow> Inl AttributeError)"

text \<open>\<^verbatim>\<open>len(v)\<close>: lists, strings and dicts have a length, everything else raises.\<close>

definition py_len :: "json \<Rightarrow> error + nat" where
  "py_len v = (case v of
       JArr xs \<Rightarrow> Inr (length xs)
     | JStr s \<Rightarrow> Inr (length s)
     | JObj kvs \<Rightarrow> Inr (length (dict_keys kvs))
     | _ \<Rightarrow> Inl TypeError)"

text \<open>\<^verbatim>\<open>for it in v\<close>: a string yields its characters, a dict its keys.\<close>

definition py_iter :: "json \<Rightarrow> error + json list" where
  "py_iter v = (case v of
       JArr xs \<Rightarrow> Inr xs
     | JStr s \<Rightarrow> Inr (map (\<lambda>c. JStr [c]) s)
     | JObj kvs \<Rightarrow> Inr (map JStr (dict_keys kvs))
     | _ \<Rightarrow> Inl TypeError)"

text \<open>\<^verbatim>\<open>v[i]\<close> with a non-negative integer index; the keys of a JSON dict are strings.\<close>

definition py_index :: "json \<Rightarrow> nat \<Rightarrow> error + json" where
  "py_index v i = (case v of
       JArr xs \<Rightarrow> (if i < length xs then Inr (xs ! i) else Inl IndexError)
     | JStr s \<Rightarrow> (if i < length s then Inr (JStr [s ! i]) else Inl IndexError)
     | JObj kvs \<Rightarrow> Inl KeyError
     | _ \<Rightarrow> Inl TypeError)"

subsection \<open>Strings\<close>

definition is_space :: "char \<Rightarrow> bool" where
  "is_space c = ((of_char c :: nat) \<in> {9, 10, 11, 12, 13, 28, 29, 30, 31, 32})"

text \<open>\<^verbatim>\<open>s.split()\<close>: the maximal runs of non-whitespace characters.\<close>

fun split_acc :: "string \<Rightarrow> string \<Rightarrow> string list" where
  "split_acc cur [] = (if cur = [] then [] else [cur])"
| "split_acc cur (c # cs) =
     (if is_space c then (if cur = [] then split_acc [] cs else cur # split_acc [] cs)
      else split_acc (cur @ [c]) cs)"

definition split_ws :: "string \<Rightarrow> string list" where
  "split_ws s = split_acc [] s"

definition strip :: "string \<Rightarrow> string" where
  "strip s = rev (dropWhile is_space (rev (dropWhile is_space s)))"

definition upper_char :: "char \<Rightarrow> char" where
  "upper_char c = (let n = (of_char c :: nat) in if 97 \<le> n \<and> n \<le> 122 then char_of (n - 32) else c)"

definition upper :: "string \<Rightarrow> string" where
  "upper s = map upper_char s"

text \<open>\<^verbatim>\<open>s.replace(c, "")\<close> for a one-character pattern.\<close>

definition remove_char :: "char \<Rightarrow> string \<Rightarrow> string" where
  "remove_char c s = filter (\<lambda>x. x \<noteq> c) s"

definition is_substr :: "string \<Rightarrow> string \<Rightarrow> bool" where
  "is_substr k s = list_ex (\<lambda>i. take (length k) (drop i s) = k) [0..<Suc (length s)]"

definition digit_char :: "nat \<Rightarrow> char" where
  "digit_char n = char_of (48 + n mod 10)"

fun str_nat :: "nat \<Rightarrow> string" where
  "str_nat n = (if n < 10 then [digit_char n] else str_nat (n div 10) @ [digit_char n])"

subsection \<open>Numbers\<close>

text \<open>
  \<^verbatim>\<open>round(x, 2)\<close> and the \<^verbatim>\<open>.2f\<close> format both round to the nearest multiple of
  1/100, ties to even.
\<close>

definition round_half_even :: "rat \<Rightarrow> int" where
  "round_half_even x = (let f = \<lfloor>x\<rfloor>; d = x - of_int f in
       if d < 1/2 then f else if 1/2 < d then f + 1 else if even f then f else f + 1)"

definition round2 :: "rat \<Rightarrow> rat" where
  "round2 x = of_int (round_half_even (x * 100)) / 100"

definition fmt_abs2 :: "rat \<Rightarrow> string" where
  "fmt_abs2 v = (let q = nat (round_half_even (\<bar>v\<bar> * 100)) in
       str_nat (q div 100) @ ''.'' @ [digit_char (q div 10), digit_char q])"

text \<open>\<^verbatim>\<open>f"{v:+.2f}"\<close> and \<^verbatim>\<open>f"{v:.2f}"\<close>.\<close>

definition fmt_signed2 :: "rat \<Rightarrow> string" where
  "fmt_signed2 v = (if v < 0 then ''-'' else ''+'') @ fmt_abs2 v"

definition fmt_plain2 :: "rat \<Rightarrow> string" where
  "fmt_plain2 v = (if v < 0 then ''-'' else '''') @ fmt_abs2 v"

section \<open>The outside world\<close>

text \<open>
  What the scripts obtain from the clock, the network, the file system and the Python
  library is a parameter of the model. Calendar dates are proleptic Gregorian ordinals
  (\<^verbatim>\<open>date.toordinal()\<close>); a date parser returns \<open>None\<close> where the Python call
  raises.
\<close>

datatype hist =
    FetchFailed
  | IterFailed
  | Rows "(int \<times> rat option \<times> rat option) list"

datatype page = PageFailed | Page string string string

record world =
  have_yfinance :: bool
  now_date :: int
  now_hour :: nat
  now_iso :: string
  fromisoformat :: "string \<Rightarrow> int option"
  strptime_ymd :: "string \<Rightarrow> int option"
  isoformat :: "int \<Rightarrow> string"
  history :: "string \<Rightarrow> string \<Rightarrow> string \<Rightarrow> hist"
  py_str :: "json \<Rightarrow> string"
  py_float :: "string \<Rightarrow> rat option"
  re_points :: "string \<Rightarrow> string option"
  save_ok :: bool
  market_day :: bool
  scraped :: "(string list list \<times> string list list) option"
  quote_page :: "string \<Rightarrow> page"

text \<open>
  \<^item> \<open>have_yfinance\<close>: \<^verbatim>\<open>import yfinance\<close> succeeds.
  \<^item> \<open>now_date\<close>, \<open>now_hour\<close>, \<open>now_iso\<close>: the date, the hour and the ISO text of
    \<^verbatim>\<open>datetime.now(ZoneInfo("America/New_York"))\<close>.
  \<^item> \<open>fromisoformat s\<close>, \<open>strptime_ymd s\<close>: the date of
    \<^verbatim>\<open>datetime.fromisoformat(s)\<close> and of \<^verbatim>\<open>datetime.strptime(s, "%Y-%m-%d")\<close>.
  \<^item> \<open>history ticker start end\<close>: \<^verbatim>\<open>yf.Ticker(ticker).history(start, end, ...)\<close>,
    each row with its date in New York and its \<^verbatim>\<open>Open\<close> and \<^verbatim>\<open>Close\<close>;
    \<open>FetchFailed\<close> when the call raises, \<open>IterFailed\<close> when reading the rows raises.
  \<^item> \<open>py_str v\<close>: \<^verbatim>\<open>str(v)\<close> of a value that is not a string;
    \<open>py_float s\<close>: \<^verbatim>\<open>float(s)\<close>, \<open>None\<close> when it raises.
  \<^item> \<open>re_points s\<close>: group 1 of \<^verbatim>\<open>re.search(r"([+-]?\d+[\d,]*\.?\d*)", s)\<close>.
  \<^item> \<open>save_ok\<close>: writing a file and renaming it into place succeeds.
  \<^item> \<open>market_day\<close>: \<^verbatim>\<open>is_market_day(now_et)\<close>.
  \<^item> \<open>scraped\<close>: the table cells of the first rows of the gainers and of the losers
    page, \<open>None\<close> when fetching a page raises.
  \<^item> \<open>quote_page symbol\<close>: the texts of \<^verbatim>\<open>Open\<close>, \<^verbatim>\<open>Previous Close\<close> and the
    market price on the symbol's quote page.
\<close>

definition to_str :: "world \<Rightarrow> json \<Rightarrow> string" where
  "to_str env v = (case v of JStr s \<Rightarrow> s | _ \<Rightarrow> py_str env v)"

definition load_json :: "json_file \<Rightarrow> json" where
  "load_json f = (case f of Content j \<Rightarrow> j | _ \<Rightarrow> JObj [])"

text \<open>\<^verbatim>\<open>_clean_sym\<close> (the same function in both scripts).\<close>

definition clean_sym :: "world \<Rightarrow> json \<Rightarrow> error + string" where
  "clean_sym env s =
     (if \<not> truthy s then Inr ''''
      else (case split_ws (to_str env s) of
              [] \<Rightarrow> Inl IndexError
            | w # _ \<Rightarrow> Inr (strip (upper w))))"

section \<open>Subsequent-day tracker: fetch_subsequent.py\<close>

definition MAX_DAYS_DEFAULT :: int where
  "MAX_DAYS_DEFAULT = 11"

definition CUTOFF_HOUR_ET :: nat where
  "CUTOFF_HOUR_ET = 20"

text \<open>\<^verbatim>\<open>d + timedelta(days=1)\<close>; the last date is 9999-12-31.\<close>

definition add_day :: "int \<Rightarrow> error + int" where
  "add_day d = (if 3652059 < d + 1 then Inl OverflowError else Inr (d + 1))"

definition parse_event_date :: "world \<Rightarrow> string \<Rightarrow> int option" where
  "parse_event_date env s =
     (case fromisoformat env s of Some d \<Rightarrow> Some d | None \<Rightarrow> strptime_ymd env s)"

definition parse_candidate_date :: "world \<Rightarrow> string \<Rightarrow> int option" where
  "parse_candidate_date env s =
     (case strptime_ymd env s of Some d \<Rightarrow> Some d | None \<Rightarrow> fromisoformat env s)"

definition cache_days :: "json \<Rightarrow> string \<Rightarrow> json" where
  "cache_days cache key = (case cache of
       JObj kvs \<Rightarrow> (case map_of kvs key of None \<Rightarrow> JArr [] | Some v \<Rightarrow> v)
     | _ \<Rightarrow> JArr [])"

definition pct_long_of :: "rat \<Rightarrow> rat \<Rightarrow> rat option" where
  "pct_long_of open_v close_v =
     (if open_v \<noteq> 0 then Some (round2 ((close_v - open_v) / open_v * 100)) else None)"

definition day_obj :: "string \<Rightarrow> rat \<Rightarrow> rat \<Rightarrow> json" where
  "day_obj d open_v close_v =
     JObj ([(''date'', JStr d), (''open'', JNum (round2 open_v)), (''close'', JNum (round2 close_v))]
           @ (case pct_long_of open_v close_v of None \<Rightarrow> [] | Some p \<Rightarrow> [(''pct_long'', JNum p)]))"

text \<open>
  Lines 97 to 194 of the loop body: the candidate row to append under \<open>key\<close>, or
  \<open>None\<close> where the body reaches a \<^verbatim>\<open>continue\<close>.
\<close>

definition select_candidate ::
  "world \<Rightarrow> int \<Rightarrow> string \<Rightarrow> string \<Rightarrow> json \<Rightarrow> error + (string \<times> rat \<times> rat) option" where
  "select_candidate env max_days event_date ticker days_list =
     ebind (py_len days_list) (\<lambda>n.
       if max_days \<le> int n then Inr None
       else (case parse_event_date env event_date of
           None \<Rightarrow> Inr None
         | Some event_dt \<Rightarrow>
             ebind (add_day event_dt) (\<lambda>start_dt.
             ebind (add_day (now_date env)) (\<lambda>end_dt.
               (case history env ticker (isoformat env start_dt) (isoformat env end_dt) of
                  FetchFailed \<Rightarrow> Inr None
                | IterFailed \<Rightarrow> Inr None
                | Rows raw \<Rightarrow>
                    (let rows = map (\<lambda>(d, ov, cv). (isoformat env d, ov, cv))
                                  (filter (\<lambda>(d, ov, cv). \<not> d \<le> event_dt) raw)
                     in if length rows \<le> n then Inr None
                        else (case rows ! n of (cdate, open_v, close_v) \<Rightarrow>
                          (case parse_candidate_date env cdate of
                             None \<Rightarrow> Inr None
                           | Some candidate_dt \<Rightarrow>
                               if now_date env < candidate_dt
                                  \<or> (now_date env = candidate_dt \<and> now_hour env < CUTOFF_HOUR_ET)
                               then Inr None
                               else (case (open_v, close_v) of
                                       (Some ov, Some cv) \<Rightarrow> Inr (Some (cdate, ov, cv))
                                     | _ \<Rightarrow> Inr None)))))))))"

text \<open>Lines 207 to 209: \<^verbatim>\<open>cache[key]\<close> is made a list, then the day is appended.\<close>

definition append_day :: "json \<Rightarrow> string \<Rightarrow> json \<Rightarrow> error + json" where
  "append_day cache key day = (case cache of
       JObj kvs \<Rightarrow>
         Inr (JObj (AList.update key
                (case map_of kvs key of Some (JArr xs) \<Rightarrow> JArr (xs @ [day]) | _ \<Rightarrow> JArr [day]) kvs))
     | JArr xs \<Rightarrow> (if JStr key \<in> set xs then Inl AttributeError else Inl TypeError)
     | JStr s \<Rightarrow> (if is_substr key s then Inl AttributeError else Inl TypeError)
     | _ \<Rightarrow> Inl TypeError)"

definition process_item ::
  "world \<Rightarrow> int \<Rightarrow> string \<Rightarrow> json \<Rightarrow> json \<times> nat \<Rightarrow> error + json \<times> nat" where
  "process_item env max_days event_date it st =
     ebind (py_get it ''symbol'' (JStr '''')) (\<lambda>sym.
     ebind (clean_sym env sym) (\<lambda>ticker.
       if ticker = '''' then Inr st
       else (let key = ticker @ ''|'' @ event_date in
         ebind (select_candidate env max_days event_date ticker (cache_days (fst st) key)) (\<lambda>cand.
           (case cand of
              None \<Rightarrow> Inr st
            | Some (cdate, ov, cv) \<Rightarrow>
                ebind (append_day (fst st) key (day_obj cdate ov cv)) (\<lambda>cache'.
                  Inr (cache', snd st + 1)))))))"

definition process_pool ::
  "world \<Rightarrow> int \<Rightarrow> string \<Rightarrow> json \<Rightarrow> string \<Rightarrow> json \<times> nat \<Rightarrow> error + json \<times> nat" where
  "process_pool env max_days event_date entry mover_type st =
     ebind (py_get entry mover_type (JArr [])) (\<lambda>v.
     ebind (py_iter (if truthy v then v else JArr [])) (\<lambda>items.
       efold (process_item env max_days event_date) items st))"

definition process_date ::
  "world \<Rightarrow> int \<Rightarrow> (string \<times> json) list \<Rightarrow> string \<Rightarrow> json \<times> nat \<Rightarrow> error + json \<times> nat" where
  "process_date env max_days movers event_date st =
     (let entry = (case map_of movers event_date of None \<Rightarrow> JObj [] | Some e \<Rightarrow> e) in
      efold (process_pool env max_days event_date entry) [''gainers'', ''losers''] st)"

definition sorted_dates :: "(string \<times> json) list \<Rightarrow> string list" where
  "sorted_dates movers = sort (filter (\<lambda>k. k \<noteq> []) (dict_keys movers))"

text \<open>The three nested iterations, on the loaded values.\<close>

definition fetch_loop :: "world \<Rightarrow> json \<Rightarrow> json \<Rightarrow> int \<Rightarrow> error + json \<times> nat" where
  "fetch_loop env movers cache max_days = (case movers of
       JObj mkvs \<Rightarrow> efold (process_date env max_days mkvs) (sorted_dates mkvs) (cache, 0)
     | _ \<Rightarrow> Inl AttributeError)"

text \<open>
  \<^verbatim>\<open>fetch_one_round\<close>: the result is the content of the cache file afterwards and the
  number returned; \<open>Inl\<close> is an exception leaving the function (the file is then as
  before).
\<close>

definition fetch_one_round ::
  "world \<Rightarrow> json_file \<Rightarrow> json_file \<Rightarrow> int \<Rightarrow> error + json_file \<times> nat" where
  "fetch_one_round env movers_file cache_file max_days =
     (if \<not> have_yfinance env then Inr (cache_file, 0)
      else ebind (fetch_loop env (load_json movers_file) (load_json cache_file) max_days)
             (\<lambda>(cache, appended).
                 Inr (if 0 < appended \<and> save_ok env then Content cache else cache_file, appended)))"

text \<open>The series stored under a key, and the cap on its length.\<close>

definition series :: "json \<Rightarrow> string \<Rightarrow> json option" where
  "series cache key = (case cache of JObj kvs \<Rightarrow> map_of kvs key | _ \<Rightarrow> None)"

definition capped :: "int \<Rightarrow> json \<Rightarrow> string \<Rightarrow> bool" where
  "capped max_days cache key = (case series cache key of
       None \<Rightarrow> True
     | Some (JArr xs) \<Rightarrow> int (length xs) \<le> max_days
     | Some _ \<Rightarrow> False)"

definition cap_kept :: "int \<Rightarrow> json \<Rightarrow> json \<Rightarrow> bool" where
  "cap_kept m c c' = (\<forall>k.
      (\<forall>xs. series c k = Some (JArr xs) \<and> m \<le> int (length xs) \<longrightarrow> series c' k = Some (JArr xs))
      \<and> (capped m c k \<longrightarrow> capped m c' k))"

section \<open>Aggregator: populate_movers_csv.py\<close>

definition HEADER :: "string list" where
  "HEADER = [
    ''ticker'',
    ''event_date'',
    ''mover_type'',
    ''direction'',
    ''Points Change'',
    ''Event Day %Change'',
    ''Day 1 %'',
    ''Day 1 Open'',
    ''Day 1 Close'',
    ''Day 2 %'',
    ''Day 2 Open'',
    ''Day 2 Close'',
    ''Day 3 %'',
    ''Day 3 Open'',
    ''Day 3 Close'',
    ''Day 4 %'',
    ''Day 4 Open'',
    ''Day 4 Close'',
    ''Day 5 %'',
    ''Day 5 Open'',
    ''Day 5 Close'',
    ''Day 6 %'',
    ''Day 6 Open'',
    ''Day 6 Close'',
    ''Day 7 %'',
    ''Day 7 Open'',
    ''Day 7 Close'',
    ''Day 8 %'',
    ''Day 8 Open'',
    ''Day 8 Close'',
    ''Day 9 %'',
    ''Day 9 Open'',
    ''Day 9 Close'',
    ''Day 10 %'',
    ''Day 10 Open'',
    ''Day 10 Close'',
    ''Day 11 %'',
    ''Day 11 Open'',
    ''Day 11 Close'']"

definition HEADER_INDEX :: "string \<Rightarrow> nat option" where
  "HEADER_INDEX h = map_of (zip HEADER [0..<length HEADER]) h"

type_synonym row = "string list"

type_synonym buckets = "(string \<times> rat list list) list"

definition blank_row :: row where
  "blank_row = replicate (length HEADER) ''''"

text \<open>\<^verbatim>\<open>row[HEADER_INDEX[col]] = v\<close>.\<close>

definition set_col :: "string \<Rightarrow> string \<Rightarrow> row \<Rightarrow> error + row" where
  "set_col col v r = (case HEADER_INDEX col of None \<Rightarrow> Inl KeyError | Some idx \<Rightarrow> Inr (r[idx := v]))"

definition col_pct :: "nat \<Rightarrow> string" where
  "col_pct i = ''Day '' @ str_nat (i + 1) @ '' %''"

definition col_open :: "nat \<Rightarrow> string" where
  "col_open i = ''Day '' @ str_nat (i + 1) @ '' Open''"

definition col_close :: "nat \<Rightarrow> string" where
  "col_close i = ''Day '' @ str_nat (i + 1) @ '' Close''"

text \<open>\<^verbatim>\<open>_parse_pct\<close>; the minus sign U+2212 it replaces is not an ASCII character.\<close>

definition parse_pct :: "world \<Rightarrow> json \<Rightarrow> rat option" where
  "parse_pct env v = (case v of
       JNull \<Rightarrow> None
     | _ \<Rightarrow> (let s = strip (to_str env v) in
              if s = '''' then None
              else py_float env (remove_char (CHR '','') (remove_char (CHR ''%'') s))))"

definition fmt_pct :: "rat option \<Rightarrow> string" where
  "fmt_pct v = (case v of None \<Rightarrow> '''' | Some x \<Rightarrow> fmt_signed2 x @ ''%'')"

definition fmt_points :: "rat option \<Rightarrow> string" where
  "fmt_points v = (case v of None \<Rightarrow> '''' | Some x \<Rightarrow> fmt_signed2 x)"

definition fmt_price :: "rat option \<Rightarrow> string" where
  "fmt_price v = (case v of None \<Rightarrow> '''' | Some x \<Rightarrow> fmt_plain2 x)"

text \<open>\<^verbatim>\<open>_ensure_number\<close>; a Python \<^verbatim>\<open>bool\<close> is an \<^verbatim>\<open>int\<close>.\<close>

definition ensure_number :: "world \<Rightarrow> json \<Rightarrow> rat option" where
  "ensure_number env v = (case v of
       JNull \<Rightarrow> None
     | JNum r \<Rightarrow> Some r
     | JBool b \<Rightarrow> Some (if b then 1 else 0)
     | _ \<Rightarrow> py_float env (remove_char (CHR '','') (to_str env v)))"

subsection \<open>Summary rows\<close>

definition total_pct :: "rat list \<Rightarrow> rat" where
  "total_pct R = (fold (\<lambda>r prod. prod * (1 + r / 100)) R 1 - 1) * 100"

definition win_rate :: "rat list \<Rightarrow> rat" where
  "win_rate R = 100 * of_nat (length (filter (\<lambda>r. 0 < r) R)) / of_nat (length R)"

definition avg :: "rat list \<Rightarrow> rat" where
  "avg R = sum_list R / of_nat (length R)"

definition groups :: "(string \<times> string) list" where
  "groups = [(''gainer_long'', ''Gainer Long''), (''gainer_short'', ''Gainer Short''),
             (''loser_long'', ''Loser Long''), (''loser_short'', ''Loser Short'')]"

text \<open>The body of \<^verbatim>\<open>for i in range(11)\<close> in \<^verbatim>\<open>_compute_summary_rows\<close>.\<close>

definition summary_cell :: "rat list list \<Rightarrow> nat \<Rightarrow> row \<times> row \<times> row \<Rightarrow> error + row \<times> row \<times> row" where
  "summary_cell lsts i st =
     (let R = (if i < length lsts then lsts ! i else []) in
      if length R = 0 then Inr st
      else (case HEADER_INDEX (col_pct i) of
              None \<Rightarrow> Inl KeyError
            | Some idx \<Rightarrow> (case st of (total_row, win_row, avg_row) \<Rightarrow>
                Inr (total_row[idx := fmt_pct (Some (round2 (total_pct R)))],
                     win_row[idx := fmt_pct (Some (round2 (win_rate R)))],
                     avg_row[idx := fmt_pct (Some (round2 (avg R)))]))))"

definition summary_group :: "buckets \<Rightarrow> string \<times> string \<Rightarrow> row list \<Rightarrow> error + row list" where
  "summary_group buckets g rows = (case g of (key, label) \<Rightarrow>
     (let lsts = (case map_of buckets key of None \<Rightarrow> replicate 11 [] | Some l \<Rightarrow> l) in
      ebind (efold (summary_cell lsts) [0..<11]
               (blank_row[0 := ''Total '' @ label @ '' Return (%)''],
                blank_row[0 := ''Win Rate '' @ label @ '' (%)''],
                blank_row[0 := ''Avg Daily Return '' @ label @ '' (%)'']))
        (\<lambda>(total_row, win_row, avg_row). Inr (rows @ [total_row, win_row, avg_row]))))"

definition compute_summary_rows :: "buckets \<Rightarrow> error + row list" where
  "compute_summary_rows buckets = efold (summary_group buckets) groups [blank_row]"

subsection \<open>Rows of one mover\<close>

text \<open>
  Lines 254 to 260 (and again 287 to 292): the open, the close and the long return of
  one stored observation.
\<close>

definition day_values :: "world \<Rightarrow> json \<Rightarrow> error + rat option \<times> rat option \<times> rat option" where
  "day_values env d =
     ebind (py_get d ''open'' JNull) (\<lambda>ov.
     ebind (py_get d ''close'' JNull) (\<lambda>cv.
     ebind (py_get d ''pct_long'' JNull) (\<lambda>pv.
       (let open_v = ensure_number env ov;
            close_v = ensure_number env cv;
            pct_long = ensure_number env pv
        in Inr (open_v, close_v,
                (case (pct_long, open_v, close_v) of
                   (None, Some a, Some b) \<Rightarrow>
                      if a \<noteq> 0 then Some (round2 ((b - a) / a * 100)) else None
                 | _ \<Rightarrow> pct_long))))))"

text \<open>\<^verbatim>\<open>buckets[key][i].append(p)\<close>.\<close>

definition bucket_append :: "string \<Rightarrow> nat \<Rightarrow> rat \<Rightarrow> buckets \<Rightarrow> error + buckets" where
  "bucket_append key i p bs = (case map_of bs key of
       None \<Rightarrow> Inl KeyError
     | Some lsts \<Rightarrow>
         if i < length lsts then Inr (AList.update key (lsts[i := lsts ! i @ [p]]) bs)
         else Inl IndexError)"

text \<open>The body of the first \<^verbatim>\<open>for i in range(11)\<close> (lines 250 to 276).\<close>

definition fill_day ::
  "world \<Rightarrow> string \<Rightarrow> json \<Rightarrow> nat \<Rightarrow> row \<times> buckets \<Rightarrow> error + row \<times> buckets" where
  "fill_day env mover_label days_list i st = (case st of (base_row, bs) \<Rightarrow>
     ebind (py_len days_list) (\<lambda>n.
       if i < n then
         ebind (py_index days_list i) (\<lambda>d.
         ebind (day_values env d) (\<lambda>(open_v, close_v, pct_long).
         ebind (set_col (col_open i) (fmt_price open_v) base_row) (\<lambda>r1.
         ebind (set_col (col_close i) (fmt_price close_v) r1) (\<lambda>r2.
           (case pct_long of
              None \<Rightarrow> Inr (r2, bs)
            | Some p \<Rightarrow>
                if mover_label = ''gainer'' then
                  ebind (bucket_append ''gainer_long'' i p bs) (\<lambda>b1.
                  ebind (bucket_append ''gainer_short'' i (- p) b1) (\<lambda>b2. Inr (r2, b2)))
                else
                  ebind (bucket_append ''loser_long'' i p bs) (\<lambda>b1.
                  ebind (bucket_append ''loser_short'' i (- p) b1) (\<lambda>b2. Inr (r2, b2))))))))
       else
         ebind (set_col (col_open i) '''' base_row) (\<lambda>r1.
         ebind (set_col (col_close i) '''' r1) (\<lambda>r2.
         ebind (set_col (col_pct i) '''' r2) (\<lambda>r3. Inr (r3, bs))))))"

text \<open>The body of the second \<^verbatim>\<open>for i in range(11)\<close> (lines 285 to 299).\<close>

definition fill_pct :: "world \<Rightarrow> string \<Rightarrow> json \<Rightarrow> nat \<Rightarrow> row \<Rightarrow> error + row" where
  "fill_pct env direction days_list i r =
     ebind (py_len days_list) (\<lambda>n.
       if i < n then
         ebind (py_index days_list i) (\<lambda>d.
         ebind (day_values env d) (\<lambda>(open_v, close_v, pct_long).
           (case pct_long of
              None \<Rightarrow> set_col (col_pct i) '''' r
            | Some p \<Rightarrow>
                set_col (col_pct i) (fmt_pct (Some (if direction = ''long'' then p else - p))) r)))
       else set_col (col_pct i) '''' r)"

definition direction_row :: "world \<Rightarrow> json \<Rightarrow> row \<Rightarrow> string \<Rightarrow> row list \<Rightarrow> error + row list" where
  "direction_row env days_list base_row direction rows =
     ebind (set_col ''direction'' direction base_row) (\<lambda>r0.
     ebind (efold (fill_pct env direction days_list) [0..<11] r0) (\<lambda>r. Inr (rows @ [r])))"

text \<open>The body of \<^verbatim>\<open>for it in items\<close> (lines 214 to 301).\<close>

definition item_rows ::
  "world \<Rightarrow> json \<Rightarrow> string \<Rightarrow> string \<Rightarrow> json \<Rightarrow> row list \<times> buckets \<Rightarrow> error + row list \<times> buckets" where
  "item_rows env cache date_key mover_type it st = (case st of (rows, bs) \<Rightarrow>
     ebind (py_get it ''symbol'' (JStr '''')) (\<lambda>sym.
     ebind (clean_sym env sym) (\<lambda>ticker.
     ebind (py_get it ''pct_change'' JNull) (\<lambda>pc.
     ebind (py_get it ''pct'' JNull) (\<lambda>pc2.
     ebind (py_get it ''change_pts'' JNull) (\<lambda>cp.
     ebind (py_get it ''change'' (JStr '''')) (\<lambda>change_field.
       (let pct_raw = (if truthy pc then pc else if truthy pc2 then pc2 else JStr '''');
            pct_f = parse_pct env pct_raw;
            pts = (case ensure_number env cp of
                     Some x \<Rightarrow> Some x
                   | None \<Rightarrow> (case re_points env (to_str env change_field) of
                                None \<Rightarrow> None
                              | Some g \<Rightarrow> ensure_number env (JStr g)));
            mover_label = (if mover_type = ''gainers'' then ''gainer'' else ''loser'');
            days_list = cache_days cache (ticker @ ''|'' @ date_key)
        in
         ebind (set_col ''ticker'' ticker blank_row) (\<lambda>r1.
         ebind (set_col ''event_date'' date_key r1) (\<lambda>r2.
         ebind (set_col ''mover_type'' mover_label r2) (\<lambda>r3.
         ebind (set_col ''Points Change'' (fmt_points pts) r3) (\<lambda>r4.
         ebind (set_col ''Event Day %Change'' (fmt_pct pct_f) r4) (\<lambda>r5.
         ebind (efold (fill_day env mover_label days_list) [0..<11] (r5, bs)) (\<lambda>(base_row, bs').
         ebind (efold (direction_row env days_list base_row) [''long'', ''short''] rows) (\<lambda>rows'.
           Inr (rows', bs'))))))))))))))))"

definition agg_pool ::
  "world \<Rightarrow> json \<Rightarrow> string \<Rightarrow> json \<Rightarrow> string \<Rightarrow> row list \<times> buckets \<Rightarrow> error + row list \<times> buckets" where
  "agg_pool env cache date_key entry mover_type st =
     ebind (py_get entry mover_type (JArr [])) (\<lambda>v.
     ebind (py_iter (if truthy v then v else JArr [])) (\<lambda>items.
       efold (item_rows env cache date_key mover_type) items st))"

definition agg_date ::
  "world \<Rightarrow> json \<Rightarrow> (string \<times> json) list \<Rightarrow> string \<Rightarrow> row list \<times> buckets \<Rightarrow> error + row list \<times> buckets" where
  "agg_date env cache movers date_key st =
     (let entry = (case map_of movers date_key of None \<Rightarrow> JObj [] | Some e \<Rightarrow> e) in
      efold (agg_pool env cache date_key entry) [''gainers'', ''losers''] st)"

definition init_buckets :: buckets where
  "init_buckets = [(''gainer_long'', replicate 11 []), (''gainer_short'', replicate 11 []),
                   (''loser_long'', replicate 11 []), (''loser_short'', replicate 11 [])]"

text \<open>
  \<^verbatim>\<open>populate_from_movers\<close>: the result is the table in the CSV file afterwards
  (\<open>None\<close>: no file) and the number returned.
\<close>

definition populate_from_movers ::
  "world \<Rightarrow> json_file \<Rightarrow> json_file \<Rightarrow> row list option \<Rightarrow> error + row list option \<times> nat" where
  "populate_from_movers env movers_file cache_file csv = (case movers_file of
       Missing \<Rightarrow> Inr (if save_ok env then Some [HEADER] else csv, 0)
     | Garbage \<Rightarrow> Inr (csv, 0)
     | Content movers \<Rightarrow>
         (case movers of
            JObj mkvs \<Rightarrow>
              ebind (efold (agg_date env (load_json cache_file) mkvs) (sorted_dates mkvs)
                       ([], init_buckets))
                (\<lambda>(rows, bs).
                   (let rows' = (case compute_summary_rows bs of
                                   Inl e \<Rightarrow> rows
                                 | Inr summary_rows \<Rightarrow> rows @ summary_rows)
                    in if save_ok env then Inr (Some (HEADER # rows'), length rows')
                       else Inr (csv, 0)))
          | _ \<Rightarrow> Inl AttributeError))"

section \<open>Mover acquisition: yahoo_top_movers.py\<close>

text \<open>A scraped item: the dict built by \<^verbatim>\<open>_parse_top_rows\<close>, then updated by \<^verbatim>\<open>enrich_pool\<close>.\<close>

definition col_or_empty :: "string list \<Rightarrow> nat \<Rightarrow> json" where
  "col_or_empty cols i = JStr (if i < length cols then cols ! i else '''')"

definition parse_top_rows :: "string list list \<Rightarrow> nat \<Rightarrow> json list" where
  "parse_top_rows trs top_n =
     map (\<lambda>cols. JObj [(''symbol'', col_or_empty cols 0), (''name'', col_or_empty cols 1),
                        (''price'', col_or_empty cols 2), (''change'', col_or_empty cols 4),
                        (''pct_change'', col_or_empty cols 5)])
         (filter (\<lambda>cols. cols \<noteq> []) (take top_n trs))"

text \<open>\<^verbatim>\<open>_parse_float\<close>.\<close>

definition parse_float :: "world \<Rightarrow> string \<Rightarrow> rat option" where
  "parse_float env s =
     (if s = '''' then None
      else (let cleaned = strip (remove_char (CHR ''%'') (remove_char (CHR '','') s)) in
            py_float env (if cleaned \<noteq> '''' \<and> hd cleaned = CHR ''('' \<and> last cleaned = CHR '')''
                          then ''-'' @ butlast (tl cleaned) else cleaned)))"

definition opt_num :: "rat option \<Rightarrow> json" where
  "opt_num v = (case v of None \<Rightarrow> JNull | Some x \<Rightarrow> JNum x)"

text \<open>\<^verbatim>\<open>round(x, 6)\<close>.\<close>

definition round6 :: "rat \<Rightarrow> rat" where
  "round6 x = of_int (round_half_even (x * 1000000)) / 1000000"

definition fetch_symbol_details :: "world \<Rightarrow> string \<Rightarrow> rat option \<times> rat option \<times> rat option" where
  "fetch_symbol_details env symbol = (case quote_page env symbol of
       PageFailed \<Rightarrow> (None, None, None)
     | Page open_s prev_close_s price_s \<Rightarrow>
         (let open_v = parse_float env open_s;
              close_v = (case parse_float env prev_close_s of
                           Some x \<Rightarrow> if x \<noteq> 0 then Some x else parse_float env price_s
                         | None \<Rightarrow> parse_float env price_s)
          in (open_v, close_v,
              (case (open_v, close_v) of
                 (Some a, Some b) \<Rightarrow> Some (round6 (b - a))
               | _ \<Rightarrow> None))))"

definition set_details :: "json \<Rightarrow> rat option \<times> rat option \<times> rat option \<Rightarrow> json" where
  "set_details item det = (case item of
       JObj kvs \<Rightarrow> (case det of (open_v, close_v, change_pts) \<Rightarrow>
         JObj (AList.update ''change_pts'' (opt_num change_pts)
                (AList.update ''close'' (opt_num close_v)
                  (AList.update ''open'' (opt_num open_v) kvs))))
     | _ \<Rightarrow> item)"

text \<open>The body of the loop of \<^verbatim>\<open>enrich_pool\<close>: the item after the update.\<close>

definition enrich_item :: "world \<Rightarrow> json \<Rightarrow> error + json" where
  "enrich_item env item =
     ebind (py_get item ''symbol'' (JStr '''')) (\<lambda>s.
       if \<not> truthy s then Inr (set_details item (None, None, None))
       else (case s of
           JStr text \<Rightarrow>
             (case split_ws text of
                [] \<Rightarrow> Inl IndexError
              | tok # _ \<Rightarrow>
                  if tok = '''' then Inr (set_details item (None, None, None))
                  else Inr (set_details item (fetch_symbol_details env tok)))
         | _ \<Rightarrow> Inl AttributeError))"

fun enrich_pool :: "world \<Rightarrow> json list \<Rightarrow> error + json list" where
  "enrich_pool env [] = Inr []"
| "enrich_pool env (item # pool) =
     ebind (enrich_item env item) (\<lambda>item'.
     ebind (enrich_pool env pool) (\<lambda>pool'. Inr (item' # pool')))"

text \<open>Line 207: the item has a close, or a non-empty \<^verbatim>\<open>pct_change\<close>.\<close>

definition has_signal :: "json \<Rightarrow> bool" where
  "has_signal item = (case item of
       JObj kvs \<Rightarrow>
         (case map_of kvs ''close'' of None \<Rightarrow> False | Some v \<Rightarrow> v \<noteq> JNull)
         \<or> (case map_of kvs ''pct_change'' of None \<Rightarrow> False | Some v \<Rightarrow> truthy v)
     | _ \<Rightarrow> False)"

definition scrape_top_gainers_and_losers :: "world \<Rightarrow> nat \<Rightarrow> json list \<times> json list" where
  "scrape_top_gainers_and_losers env top_n = (case scraped env of
       None \<Rightarrow> ([], [])
     | Some (g, l) \<Rightarrow> (parse_top_rows g top_n, parse_top_rows l top_n))"

text \<open>\<^verbatim>\<open>date_str in movers\<close> followed by \<^verbatim>\<open>movers[date_str] = record\<close>.\<close>

definition has_date :: "json \<Rightarrow> string \<Rightarrow> error + bool" where
  "has_date movers date_str = (case movers of
       JObj kvs \<Rightarrow> Inr (map_of kvs date_str \<noteq> None)
     | JArr xs \<Rightarrow> Inr (JStr date_str \<in> set xs)
     | JStr s \<Rightarrow> Inr (is_substr date_str s)
     | _ \<Rightarrow> Inl TypeError)"

definition put_date :: "json \<Rightarrow> string \<Rightarrow> json \<Rightarrow> error + json" where
  "put_date movers date_str record = (case movers of
       JObj kvs \<Rightarrow> Inr (JObj (AList.update date_str record kvs))
     | _ \<Rightarrow> Inl TypeError)"

text \<open>The three files the scripts keep.\<close>

record stores =
  movers_file :: json_file
  cache_file :: json_file
  csv_file :: "row list option"

text \<open>
  Lines 221 to 240: the CSV is regenerated, the tracker runs once, the CSV is regenerated
  again; an exception of any of the three is caught and logged.
\<close>

definition refresh_csv :: "world \<Rightarrow> stores \<Rightarrow> stores" where
  "refresh_csv env st =
     (case populate_from_movers env (movers_file st) (cache_file st) (csv_file st) of
        Inl e \<Rightarrow> st
      | Inr (csv, n) \<Rightarrow> st\<lparr>csv_file := csv\<rparr>)"

definition track_once :: "world \<Rightarrow> stores \<Rightarrow> stores" where
  "track_once env st =
     (case fetch_one_round env (movers_file st) (cache_file st) MAX_DAYS_DEFAULT of
        Inl e \<Rightarrow> st
      | Inr (cache, n) \<Rightarrow> st\<lparr>cache_file := cache\<rparr>)"

text \<open>
  \<^verbatim>\<open>run_and_persist\<close>: the files afterwards; \<open>Inl\<close> is an exception that leaves
  it, the files then being as \<open>st\<close> has them.
\<close>

definition run_and_persist :: "world \<Rightarrow> nat \<Rightarrow> stores \<Rightarrow> error + stores" where
  "run_and_persist env top_n st =
     (let date_str = isoformat env (now_date env) in
      if \<not> market_day env then Inr st
      else if \<not> 20 \<le> now_hour env then Inr st
      else (case scrape_top_gainers_and_losers env top_n of (gainers, losers) \<Rightarrow>
        if gainers @ losers = [] then Inr st
        else
          ebind (enrich_pool env gainers) (\<lambda>gainers'.
          ebind (enrich_pool env losers) (\<lambda>losers'.
            if \<not> list_ex has_signal (gainers' @ losers') then Inr st
            else (let movers = load_json (movers_file st) in
              ebind (has_date movers date_str) (\<lambda>present.
                if present then Inr st
                else
                  ebind (put_date movers date_str
                           (JObj [(''scraped_at'', JStr (now_iso env)),
                                  (''gainers'', JArr gainers'), (''losers'', JArr losers')]))
                    (\<lambda>movers'.
                       if \<not> save_ok env then Inl OSError
                       else Inr (refresh_csv env (track_once env
                                   (refresh_csv env (st\<lparr>movers_file := Content movers'\<rparr>)))))))))))"

definition stores_after :: "world \<Rightarrow> nat \<Rightarrow> stores \<Rightarrow> stores" where
  "stores_after env top_n st = (case run_and_persist env top_n st of Inl e \<Rightarrow> st | Inr st' \<Rightarrow> st')"

section \<open>Reading stored values\<close>

text \<open>A field of a stored object, \<open>None\<close> when the object does not have it.\<close>

definition attr :: "json \<Rightarrow> string \<Rightarrow> json option" where
  "attr d k = (case d of JObj kvs \<Rightarrow> map_of kvs k | _ \<Rightarrow> None)"

text \<open>An observation as stored, without its \<^verbatim>\<open>pct_long\<close> field.\<close>

definition without_pct :: "json \<Rightarrow> json" where
  "without_pct d = (case d of JObj kvs \<Rightarrow> JObj (AList.delete ''pct_long'' kvs) | _ \<Rightarrow> d)"

text \<open>The returns collected in a bucket at an offset.\<close>

definition bucket_at :: "buckets \<Rightarrow> string \<Rightarrow> nat \<Rightarrow> rat list" where
  "bucket_at bs key i = (case map_of bs key of
       None \<Rightarrow> []
     | Some lsts \<Rightarrow> if i < length lsts then lsts ! i else [])"

section \<open>Example inputs\<close>

text \<open>
  Friday 2024-01-19, 21:00 in New York. The movers of Tuesday 2024-01-02 are tracked; the
  price history offers the twelve trading days that followed. \<^verbatim>\<open>float\<close> and the regular
  expression are given on the texts of the scraped rows; no example applies \<^verbatim>\<open>str\<close>
  to a value that is not a string.
\<close>

definition ex_dates :: "(string \<times> int) list" where
  "ex_dates = [(''2024-01-02'', 738887), (''2024-01-03'', 738888), (''2024-01-04'', 738889),
     (''2024-01-05'', 738890), (''2024-01-08'', 738893), (''2024-01-09'', 738894),
     (''2024-01-10'', 738895), (''2024-01-11'', 738896), (''2024-01-12'', 738897),
     (''2024-01-16'', 738901), (''2024-01-17'', 738902), (''2024-01-18'', 738903),
     (''2024-01-19'', 738904), (''2024-01-20'', 738905)]"

definition ex_rows :: "(int \<times> rat option \<times> rat option) list" where
  "ex_rows = [(738888, Some (10004 / 1000), Some (10006 / 1000)),
     (738889, Some 10, Some (21 / 2)),
     (738890, Some 0, Some (51 / 5)),
     (738893, Some (51 / 5), Some (101 / 10)),
     (738894, Some (101 / 10), Some (52 / 5)),
     (738895, Some (52 / 5), Some (53 / 5)),
     (738896, Some (53 / 5), Some (21 / 2)),
     (738897, Some (21 / 2), Some 11),
     (738901, Some 11, Some (56 / 5)),
     (738902, Some (56 / 5), Some (57 / 5)),
     (738903, Some (57 / 5), Some (23 / 2)),
     (738904, Some (23 / 2), Some 12)]"

definition ex_world :: world where
  "ex_world = \<lparr> have_yfinance = True, now_date = 738904, now_hour = 21,
     now_iso = ''2024-01-19T21:00:00-05:00'',
     fromisoformat = map_of ex_dates, strptime_ymd = map_of ex_dates,
     isoformat = (\<lambda>d. case map_of (map prod.swap ex_dates) d of Some s \<Rightarrow> s | None \<Rightarrow> ''''),
     history = (\<lambda>ticker start end.
        if (ticker = ''AAPL'' \<or> ticker = ''MSFT'') \<and> start = ''2024-01-03'' \<and> end = ''2024-01-20''
        then Rows ex_rows else Rows []),
     py_str = (\<lambda>v. ''''),
     py_float = map_of [(''+4.17'', 417 / 100), (''-7.83'', - (783 / 100)),
                        (''+23.84'', 596 / 25), (''-35.04'', - (876 / 25))],
     re_points = map_of [(''+23.84'', ''+23.84''), (''-35.04'', ''-35.04'')],
     save_ok = True, market_day = True,
     scraped = Some ([ [''NVDA'', ''NVIDIA Corporation'', ''594.91'', '''', ''+23.84'', ''+4.17%''] ],
                     [ [''HUM'', ''Humana Inc.'', ''412.50'', '''', ''-35.04'', ''-7.83%''] ]),
     quote_page = (\<lambda>symbol. PageFailed) \<rparr>"

definition ex_key :: string where
  "ex_key = ''AAPL|2024-01-02''"

definition one_mover :: json where
  "one_mover = JObj [(''2024-01-02'', JObj [(''gainers'', JArr [JObj [(''symbol'', JStr ''AAPL'')]]),
                                           (''losers'', JArr [])])]"

definition two_movers :: json where
  "two_movers = JObj [(''2024-01-02'', JObj [(''gainers'', JArr [JObj [(''symbol'', JStr ''AAPL'')]]),
                                            (''losers'', JArr [JObj [(''symbol'', JStr ''MSFT'')]])])]"

definition dup_movers :: json where
  "dup_movers = JObj [(''2024-01-02'',
     JObj [(''gainers'', JArr [JObj [(''symbol'', JStr ''AAPL'')], JObj [(''symbol'', JStr ''AAPL'')]]),
           (''losers'', JArr [])])]"

definition blank_movers :: json where
  "blank_movers = JObj [(''2024-01-02'',
     JObj [(''gainers'', JArr [JObj [(''symbol'', JStr '' '')], JObj [(''symbol'', JStr ''AAPL'')]]),
           (''losers'', JArr [])])]"

definition bad_date_entries :: "(string \<times> json) list" where
  "bad_date_entries = [(''01/02/2024'', JObj [(''gainers'', JArr [JObj [(''symbol'', JStr ''AAPL'')]])]),
                       (''2024-01-02'', JObj [(''gainers'', JArr [JObj [(''symbol'', JStr ''MSFT'')]])])]"

definition bad_date_movers :: json where
  "bad_date_movers = JObj bad_date_entries"

text \<open>What eleven runs of the tracker have stored for a mover of 2024-01-02.\<close>

definition full_series :: "json list" where
  "full_series = map (\<lambda>(d, ov, cv). day_obj (isoformat ex_world d) (the ov) (the cv)) (take 11 ex_rows)"

text \<open>The same evening with a gainers page whose only row has a single cell.\<close>

definition bare_world :: world where
  "bare_world = ex_world\<lparr>scraped := Some ([ [''NVDA''] ], [])\<rparr>"

definition no_files :: stores where
  "no_files = \<lparr>movers_file = Missing, cache_file = Missing, csv_file = None\<rparr>"

definition ex_record :: json where
  "ex_record = JObj [(''scraped_at'', JStr ''2024-01-19T21:00:00-05:00''),
     (''gainers'', JArr [JObj [(''symbol'', JStr ''NVDA''), (''name'', JStr ''NVIDIA Corporation''),
        (''price'', JStr ''594.91''), (''change'', JStr ''+23.84''), (''pct_change'', JStr ''+4.17%''),
        (''open'', JNull), (''close'', JNull), (''change_pts'', JNull)]]),
     (''losers'', JArr [JObj [(''symbol'', JStr ''HUM''), (''name'', JStr ''Humana Inc.''),
        (''price'', JStr ''412.50''), (''change'', JStr ''-35.04''), (''pct_change'', JStr ''-7.83%''),
        (''open'', JNull), (''close'', JNull), (''change_pts'', JNull)]])]"

text \<open>The cache after three runs: the third observation has the open 0.\<close>

definition three_days :: json where
  "three_days = JObj [(ex_key, JArr (take 3 full_series))]"


section \<open>Notions used in the proofs\<close>



section \<open>Basic facts\<close>

lemma ebind_Inr: "ebind m f = Inr y \<longleftrightarrow> (\<exists>x. m = Inr x \<and> f x = Inr y)"
  by (cases m) (simp_all add: ebind_def)

lemma ebind_simps: "ebind (Inr x) f = f x" "ebind (Inl e) f = Inl e"
  by (simp_all add: ebind_def)

lemma efold_rel:
  assumes step: "\<And>x s s'. f x s = Inr s' \<Longrightarrow> R s s'"
    and refl: "\<And>s. R s s"
    and trans: "\<And>a b c. R a b \<Longrightarrow> R b c \<Longrightarrow> R a c"
  shows "efold f xs s = Inr s' \<Longrightarrow> R s s'"
proof (induction xs arbitrary: s)
  case Nil
  then show ?case by (simp add: refl)
next
  case (Cons x xs)
  then obtain s1 where s1: "f x s = Inr s1" and rest: "efold f xs s1 = Inr s'"
    by (auto split: sum.splits)
  from step[OF s1] Cons.IH[OF rest] show ?case by (rule trans)
qed

section \<open>Tracker: the cap on a series\<close>

lemma cap_kept_refl: "cap_kept m c c"
  by (simp add: cap_kept_def)

lemma cap_kept_trans: "cap_kept m a b \<Longrightarrow> cap_kept m b c \<Longrightarrow> cap_kept m a c"
  unfolding cap_kept_def by blast

lemma select_candidate_below:
  assumes "select_candidate env m ev t dl = Inr (Some cand)"
  shows "\<exists>n. py_len dl = Inr n \<and> int n < m"
  using assms unfolding select_candidate_def
  by (auto simp: ebind_Inr split: if_splits)

lemma append_day_cap:
  assumes ap: "append_day c key day = Inr c'"
    and len: "py_len (cache_days c key) = Inr n" and below: "int n < m"
  shows "cap_kept m c c'"
proof -
  from ap obtain kvs where c: "c = JObj kvs"
    and c': "c' = JObj (AList.update key
        (case map_of kvs key of Some (JArr xs) \<Rightarrow> JArr (xs @ [day]) | _ \<Rightarrow> JArr [day]) kvs)"
    by (auto simp: append_day_def split: json.splits if_splits)
  show ?thesis
    unfolding cap_kept_def
  proof (intro allI conjI impI)
    fix k xs
    assume h: "series c k = Some (JArr xs) \<and> m \<le> int (length xs)"
    show "series c' k = Some (JArr xs)"
    proof (cases "k = key")
      case True
      with h c len below show ?thesis
        by (auto simp: series_def cache_days_def py_len_def)
    next
      case False
      with h c c' show ?thesis
        by (simp add: series_def update_conv')
    qed
  next
    fix k
    assume h: "capped m c k"
    show "capped m c' k"
    proof (cases "k = key")
      case True
      with c c' len below show ?thesis
        by (auto simp: capped_def series_def cache_days_def py_len_def update_conv'
            split: option.splits json.splits)
    next
      case False
      with h c c' show ?thesis
        by (simp add: capped_def series_def update_conv')
    qed
  qed
qed

text \<open>What one pass of the loop body does: nothing, or one append under the item's key.\<close>

lemma process_item_cases:
  assumes "process_item env m ev it st = Inr st'"
  obtains (same) "st' = st"
  | (app) s ticker cdate ov cv c' where
      "py_get it ''symbol'' (JStr '''') = Inr s" "clean_sym env s = Inr ticker"
      "select_candidate env m ev ticker (cache_days (fst st) (ticker @ ''|'' @ ev))
         = Inr (Some (cdate, ov, cv))"
      "append_day (fst st) (ticker @ ''|'' @ ev) (day_obj cdate ov cv) = Inr c'"
      "st' = (c', snd st + 1)"
  using assms unfolding process_item_def
  by (auto simp: ebind_Inr Let_def split: if_splits option.splits prod.splits)

lemma process_item_cap:
  assumes "process_item env m ev it st = Inr st'"
  shows "cap_kept m (fst st) (fst st')"
  using assms
proof (cases rule: process_item_cases)
  case same
  then show ?thesis by (simp add: cap_kept_refl)
next
  case (app s ticker cdate ov cv c')
  from select_candidate_below[OF app(3)] obtain n where
    "py_len (cache_days (fst st) (ticker @ ''|'' @ ev)) = Inr n" "int n < m" by blast
  from append_day_cap[OF app(4) this] app(5) show ?thesis by simp
qed

lemma process_pool_cap:
  assumes "process_pool env m ev entry mt st = Inr st'"
  shows "cap_kept m (fst st) (fst st')"
proof -
  from assms obtain items where "efold (process_item env m ev) items st = Inr st'"
    unfolding process_pool_def by (auto simp: ebind_Inr)
  then show ?thesis
    by (rule efold_rel[where R = "\<lambda>s s'. cap_kept m (fst s) (fst s')", rotated -1])
      (auto intro: process_item_cap cap_kept_refl cap_kept_trans)
qed

lemma process_date_cap:
  assumes "process_date env m movers ev st = Inr st'"
  shows "cap_kept m (fst st) (fst st')"
  using assms unfolding process_date_def Let_def
  by (rule efold_rel[where R = "\<lambda>s s'. cap_kept m (fst s) (fst s')", rotated -1])
    (auto intro: process_pool_cap cap_kept_refl cap_kept_trans)

lemma fetch_loop_cap:
  assumes "fetch_loop env movers cache m = Inr (cache', n)"
  shows "cap_kept m cache cache'"
proof -
  from assms obtain mkvs where
    "efold (process_date env m mkvs) (sorted_dates mkvs) (cache, 0) = Inr (cache', n)"
    unfolding fetch_loop_def by (auto split: json.splits)
  then have "cap_kept m (fst (cache, 0::nat)) (fst (cache', n))"
    by (rule efold_rel[where R = "\<lambda>s s'. cap_kept m (fst s) (fst s')", rotated -1])
      (auto intro: process_date_cap cap_kept_refl cap_kept_trans)
  then show ?thesis by simp
qed

lemma fetch_one_round_cap:
  assumes "fetch_one_round env mf cf m = Inr (cf', n)"
  shows "cap_kept m (load_json cf) (load_json cf')"
proof (cases "have_yfinance env")
  case False
  with assms show ?thesis by (simp add: fetch_one_round_def cap_kept_refl)
next
  case True
  with assms obtain cache where loop: "fetch_loop env (load_json mf) (load_json cf) m = Inr (cache, n)"
    and cf': "cf' = (if 0 < n \<and> save_ok env then Content cache else cf)"
    by (auto simp: fetch_one_round_def ebind_Inr)
  from fetch_loop_cap[OF loop] cf' show ?thesis
    by (auto simp: load_json_def cap_kept_refl)
qed

text \<open>
  C2. Whenever \<^verbatim>\<open>fetch_one_round\<close> returns, a series that had reached \<open>max_days\<close>
  entries is stored unchanged, and a series of at most \<open>max_days\<close> entries is still one
  afterwards, whatever the price history offers. (When an exception leaves the function
  the cache file is not written.)
\<close>

theorem cap_enforced:
  assumes "fetch_one_round env mf cf max_days = Inr (cf', n)"
  shows "(series (load_json cf) key = Some (JArr xs) \<and> max_days \<le> int (length xs)
            \<longrightarrow> series (load_json cf') key = Some (JArr xs))
         \<and> (capped max_days (load_json cf) key \<longrightarrow> capped max_days (load_json cf') key)"
  using fetch_one_round_cap[OF assms] unfolding cap_kept_def by blast

theorem cap_enforced_witness:
  "fetch_one_round ex_world (Content two_movers) (Content (JObj [(ex_key, JArr full_series)]))
      MAX_DAYS_DEFAULT
     = Inr (Content (JObj [(ex_key, JArr full_series),
              (''MSFT|2024-01-02'', JArr [day_obj ''2024-01-03'' (10004 / 1000) (10006 / 1000)])]), 1)
   \<and> MAX_DAYS_DEFAULT \<le> int (length full_series)
   \<and> series (JObj [(ex_key, JArr full_series),
              (''MSFT|2024-01-02'', JArr [day_obj ''2024-01-03'' (10004 / 1000) (10006 / 1000)])]) ex_key
       = Some (JArr full_series)
   \<and> capped MAX_DAYS_DEFAULT (JObj [(ex_key, JArr full_series),
              (''MSFT|2024-01-02'', JArr [day_obj ''2024-01-03'' (10004 / 1000) (10006 / 1000)])]) ex_key"
proof -
  let ?cf = "Content (JObj [(ex_key, JArr full_series)])"
  let ?after = "JObj [(ex_key, JArr full_series),
              (''MSFT|2024-01-02'', JArr [day_obj ''2024-01-03'' (10004 / 1000) (10006 / 1000)])]"
  have run: "fetch_one_round ex_world (Content two_movers) ?cf MAX_DAYS_DEFAULT = Inr (Content ?after, 1)"
    by code_simp
  have full: "series (load_json ?cf) ex_key = Some (JArr full_series)"
    by (simp add: load_json_def series_def)
  have len: "MAX_DAYS_DEFAULT \<le> int (length full_series)"
    by code_simp
  have cap: "capped MAX_DAYS_DEFAULT (load_json ?cf) ex_key"
    by code_simp
  from cap_enforced[OF run, of ex_key full_series] full len cap
  have "series (load_json (Content ?after)) ex_key = Some (JArr full_series)"
    and "capped MAX_DAYS_DEFAULT (load_json (Content ?after)) ex_key"
    by blast+
  with run len show ?thesis
    by (simp add: load_json_def)
qed

section \<open>Tracker: one append per key\<close>

text \<open>
  C1. A run should append at most one observation under a key. With the same ticker listed
  twice under one event date, and an empty cache, the loop body runs twice for the key
  \<^verbatim>\<open>AAPL|2024-01-02\<close> and each pass appends: one call stores two observations under
  the key and returns 2.
\<close>

theorem two_appends_under_one_key:
  "fetch_one_round ex_world (Content dup_movers) (Content (JObj [])) MAX_DAYS_DEFAULT
     = Inr (Content (JObj [(''AAPL|2024-01-02'',
              JArr [JObj [(''date'', JStr ''2024-01-03''), (''open'', JNum 10),
                          (''close'', JNum (1001 / 100)), (''pct_long'', JNum (1 / 50))],
                    JObj [(''date'', JStr ''2024-01-04''), (''open'', JNum 10),
                          (''close'', JNum (21 / 2)), (''pct_long'', JNum 5)]])]), 2)"
  by code_simp

section \<open>Tracker: the appended observation\<close>


lemma append_day_series:
  assumes "append_day c key day = Inr c'"
  shows "series c' key = Some (JArr ((case series c key of Some (JArr xs) \<Rightarrow> xs | _ \<Rightarrow> []) @ [day]))"
  using assms
  by (auto simp: append_day_def series_def update_conv' split: json.splits if_splits option.splits)



section \<open>The return stored by the tracker and the aggregator's fallback\<close>

text \<open>
  C5, as stated, fails: the tracker computes \<^verbatim>\<open>pct_long\<close> from the fetched open and
  close and stores the two prices rounded to two places. For an open of 10.004 and a close
  of 10.006 it stores 0.02 beside the prices 10.00 and 10.01, from which the aggregator's
  fallback computes 0.10.
\<close>

theorem recomputed_pct_differs:
  "attr (day_obj ''2024-01-03'' (10004 / 1000) (10006 / 1000)) ''pct_long'' = Some (JNum (1 / 50))
   \<and> day_values ex_world (without_pct (day_obj ''2024-01-03'' (10004 / 1000) (10006 / 1000)))
       = Inr (Some 10, Some (1001 / 100), Some (1 / 10))"
  by code_simp

lemma ensure_number_JNum: "ensure_number env (JNum r) = Some r"
  by (simp add: ensure_number_def)

lemma ensure_number_JNull: "ensure_number env JNull = None"
  by (simp add: ensure_number_def)

text \<open>
  C5, amended. For an observation appended by the tracker with an open that is not zero,
  the aggregator takes the stored \<^verbatim>\<open>pct_long\<close> as it is (its fallback is not used); and
  the fallback, computed from the stored open and close, gives the same value when the
  fetched open and close already have at most two decimals.
\<close>

theorem stored_pct_read_back:
  assumes "ov \<noteq> 0"
  shows "day_values env (day_obj d ov cv)
           = Inr (Some (round2 ov), Some (round2 cv), Some (round2 ((cv - ov) / ov * 100)))
       \<and> (round2 ov = ov \<and> round2 cv = cv \<longrightarrow>
            day_values env (without_pct (day_obj d ov cv))
              = Inr (Some ov, Some cv, Some (round2 ((cv - ov) / ov * 100))))"
  using assms
  by (simp add: day_values_def day_obj_def pct_long_of_def without_pct_def py_get_def
      ebind_simps ensure_number_JNum ensure_number_JNull)

theorem stored_pct_read_back_witness:
  "(10::rat) \<noteq> 0 \<and> round2 10 = 10 \<and> round2 (21 / 2) = 21 / 2
   \<and> day_values ex_world (day_obj ''2024-01-04'' 10 (21 / 2)) = Inr (Some 10, Some (21 / 2), Some 5)
   \<and> day_values ex_world (without_pct (day_obj ''2024-01-04'' 10 (21 / 2)))
       = Inr (Some 10, Some (21 / 2), Some 5)"
proof -
  have a: "(10::rat) \<noteq> 0" by simp
  have b: "round2 10 = 10" "round2 (21 / 2) = 21 / 2" "round2 ((21 / 2 - 10) / 10 * 100) = 5"
    by code_simp+
  from stored_pct_read_back[OF a, of ex_world "''2024-01-04''" "21 / 2"] a b show ?thesis
    by simp
qed

section \<open>Acquisition\<close>

lemma refresh_csv_movers: "movers_file (refresh_csv env st) = movers_file st"
  by (simp add: refresh_csv_def split: sum.splits prod.splits)

lemma track_once_movers: "movers_file (track_once env st) = movers_file st"
  by (simp add: track_once_def split: sum.splits prod.splits)

lemma enrich_pool_length: "enrich_pool env xs = Inr ys \<Longrightarrow> length ys = length xs"
  by (induction xs arbitrary: ys) (auto simp: ebind_Inr)

text \<open>The part of \<^verbatim>\<open>run_and_persist\<close> after the enrichment (lines 207 to 240).\<close>

lemma persist_no_signal:
  assumes "scrape_top_gainers_and_losers env top_n = (g, l)"
    "enrich_pool env g = Inr g'" "enrich_pool env l = Inr l'"
    "\<not> list_ex has_signal (g' @ l')"
  shows "run_and_persist env top_n st = Inr st"
  unfolding run_and_persist_def Let_def
  by (simp only: assms ebind_simps prod.case if_True if_False not_True_eq_False
      not_False_eq_True simp_thms if_cancel)

lemma persist_signal:
  assumes "market_day env" "20 \<le> now_hour env"
    "scrape_top_gainers_and_losers env top_n = (g, l)" "g @ l \<noteq> []"
    "enrich_pool env g = Inr g'" "enrich_pool env l = Inr l'"
    "list_ex has_signal (g' @ l')"
  shows "run_and_persist env top_n st =
     ebind (has_date (load_json (movers_file st)) (isoformat env (now_date env))) (\<lambda>present.
        if present then Inr st
        else ebind (put_date (load_json (movers_file st)) (isoformat env (now_date env))
                     (JObj [(''scraped_at'', JStr (now_iso env)),
                            (''gainers'', JArr g'), (''losers'', JArr l')]))
               (\<lambda>movers'. if \<not> save_ok env then Inl OSError
                  else Inr (refresh_csv env (track_once env
                         (refresh_csv env (st\<lparr>movers_file := Content movers'\<rparr>))))))"
  unfolding run_and_persist_def Let_def
  by (simp only: assms ebind_simps prod.case if_True if_False not_True_eq_False simp_thms)

lemma run_and_persist_early:
  assumes "\<not> market_day env \<or> \<not> 20 \<le> now_hour env
     \<or> (case scrape_top_gainers_and_losers env top_n of (g, l) \<Rightarrow> g @ l = [])"
  shows "run_and_persist env top_n st = Inr st"
  using assms unfolding run_and_persist_def Let_def
  by (auto split: prod.splits)

lemma run_and_persist_enrich_fails:
  assumes "market_day env" "20 \<le> now_hour env"
    "scrape_top_gainers_and_losers env top_n = (g, l)" "g @ l \<noteq> []"
    "enrich_pool env g = Inl e \<or> (\<exists>e'. enrich_pool env l = Inl e')"
  shows "\<exists>e. run_and_persist env top_n st = Inl e"
proof (cases "enrich_pool env g")
  case (Inl a)
  have "run_and_persist env top_n st = Inl a"
    unfolding run_and_persist_def Let_def
    by (simp only: assms(1-4) Inl ebind_simps prod.case if_True if_False not_True_eq_False simp_thms)
  then show ?thesis by blast
next
  case (Inr g')
  with assms(5) obtain e' where "enrich_pool env l = Inl e'" by auto
  then have "run_and_persist env top_n st = Inl e'"
    unfolding run_and_persist_def Let_def
    by (simp only: assms(1-4) Inr ebind_simps prod.case if_True if_False not_True_eq_False simp_thms)
  then show ?thesis by blast
qed

lemma run_and_persist_cases:
  assumes r: "run_and_persist env top_n st = Inr st'"
  obtains (same) "st' = st"
  | (saved) kvs rcd where "load_json (movers_file st) = JObj kvs"
      "map_of kvs (isoformat env (now_date env)) = None"
      "movers_file st' = Content (JObj (AList.update (isoformat env (now_date env)) rcd kvs))"
proof (cases "\<not> market_day env \<or> \<not> 20 \<le> now_hour env
     \<or> (case scrape_top_gainers_and_losers env top_n of (g, l) \<Rightarrow> g @ l = [])")
  case True
  from run_and_persist_early[OF True, of st] r have "st' = st" by simp
  then show ?thesis by (rule same)
next
  case False
  then obtain g l where gates: "market_day env" "20 \<le> now_hour env"
    "scrape_top_gainers_and_losers env top_n = (g, l)" "g @ l \<noteq> []"
    by (cases "scrape_top_gainers_and_losers env top_n") auto
  from run_and_persist_enrich_fails[OF gates, of _ st] r
  obtain g' l' where en: "enrich_pool env g = Inr g'" "enrich_pool env l = Inr l'"
    by (cases "enrich_pool env g"; cases "enrich_pool env l") auto
  show ?thesis
  proof (cases "list_ex has_signal (g' @ l')")
    case False
    from persist_no_signal[OF gates(3) en False, of st] r have "st' = st" by simp
    then show ?thesis by (rule same)
  next
    case True
    note tail = persist_signal[OF gates en True, of st]
    show ?thesis
    proof (cases "load_json (movers_file st)")
      case (JObj kvs)
      show ?thesis
      proof (cases "map_of kvs (isoformat env (now_date env))")
        case None
        from r have "movers_file st' = Content (JObj (AList.update (isoformat env (now_date env))
              (JObj [(''scraped_at'', JStr (now_iso env)),
                     (''gainers'', JArr g'), (''losers'', JArr l')]) kvs))"
          unfolding tail JObj
          by (auto simp: ebind_simps has_date_def put_date_def None refresh_csv_movers
              track_once_movers split: if_splits)
        with JObj None show ?thesis by (rule saved)
      next
        case (Some v)
        from r have "st' = st"
          unfolding tail JObj by (simp add: ebind_simps has_date_def Some)
        then show ?thesis by (rule same)
      qed
    next
      case JNull
      with r show ?thesis unfolding tail by (simp add: ebind_simps has_date_def)
    next
      case (JBool b)
      with r show ?thesis unfolding tail by (simp add: ebind_simps has_date_def)
    next
      case (JNum x)
      with r show ?thesis unfolding tail by (simp add: ebind_simps has_date_def)
    next
      case (JStr x)
      with r have "st' = st" unfolding tail
        by (simp add: ebind_simps has_date_def put_date_def split: if_splits)
      then show ?thesis by (rule same)
    next
      case (JArr x)
      with r have "st' = st" unfolding tail
        by (simp add: ebind_simps has_date_def put_date_def split: if_splits)
      then show ?thesis by (rule same)
    qed
  qed
qed


lemma present_no_change:
  assumes "load_json (movers_file st) = JObj kvs" "map_of kvs (isoformat env (now_date env)) \<noteq> None"
  shows "stores_after env top_n st = st"
proof (cases "run_and_persist env top_n st")
  case (Inl e)
  then show ?thesis by (simp add: stores_after_def)
next
  case (Inr st')
  then have "st' = st"
  proof (cases rule: run_and_persist_cases)
    case same
    then show ?thesis .
  next
    case (saved kvs' rcd)
    with assms show ?thesis by simp
  qed
  with Inr show ?thesis by (simp add: stores_after_def)
qed

text \<open>
  C7. If the mover store already holds an entry under today's date, \<^verbatim>\<open>run_and_persist\<close>
  leaves every file as it was; a second call in the same circumstances leaves the files
  as the first call left them; and a store whose date keys are distinct has distinct date
  keys afterwards.
\<close>

theorem write_once:
  "(movers_file st = Content (JObj kvs) \<and> map_of kvs (isoformat env (now_date env)) \<noteq> None
      \<longrightarrow> stores_after env top_n st = st)
   \<and> stores_after env top_n (stores_after env top_n st) = stores_after env top_n st
   \<and> (load_json (movers_file st) = JObj kvs \<and> distinct (map fst kvs)
      \<longrightarrow> (\<exists>kvs'. load_json (movers_file (stores_after env top_n st)) = JObj kvs'
             \<and> distinct (map fst kvs')))"
proof (intro conjI)
  show "movers_file st = Content (JObj kvs) \<and> map_of kvs (isoformat env (now_date env)) \<noteq> None
      \<longrightarrow> stores_after env top_n st = st"
    using present_no_change[of st kvs env top_n] by (simp add: load_json_def)
next
  show "stores_after env top_n (stores_after env top_n st) = stores_after env top_n st"
  proof (cases "run_and_persist env top_n st")
    case (Inl e)
    then show ?thesis by (simp add: stores_after_def)
  next
    case (Inr st')
    then have after: "stores_after env top_n st = st'" by (simp add: stores_after_def)
    from Inr have "stores_after env top_n st' = st'"
    proof (cases rule: run_and_persist_cases)
      case same
      with after show ?thesis by simp
    next
      case (saved kvs' rcd)
      show ?thesis
        by (rule present_no_change[where kvs = "AList.update (isoformat env (now_date env)) rcd kvs'"])
          (simp_all add: saved(3) load_json_def update_conv')
    qed
    with after show ?thesis by simp
  qed
next
  show "load_json (movers_file st) = JObj kvs \<and> distinct (map fst kvs)
      \<longrightarrow> (\<exists>kvs'. load_json (movers_file (stores_after env top_n st)) = JObj kvs'
             \<and> distinct (map fst kvs'))"
  proof
    assume h: "load_json (movers_file st) = JObj kvs \<and> distinct (map fst kvs)"
    show "\<exists>kvs'. load_json (movers_file (stores_after env top_n st)) = JObj kvs'
             \<and> distinct (map fst kvs')"
    proof (cases "run_and_persist env top_n st")
      case (Inl e)
      with h show ?thesis by (simp add: stores_after_def)
    next
      case (Inr st')
      then have after: "stores_after env top_n st = st'" by (simp add: stores_after_def)
      from Inr show ?thesis
      proof (cases rule: run_and_persist_cases)
        case same
        with after h show ?thesis by simp
      next
        case (saved kvs0 rcd)
        with h have "kvs0 = kvs" by simp
        with saved(3) after h show ?thesis
          by (simp add: load_json_def distinct_update)
      qed
    qed
  qed
qed

theorem write_once_witness:
  "movers_file \<lparr>movers_file = Content (JObj [(''2024-01-19'', ex_record)]),
                 cache_file = Missing, csv_file = None\<rparr>
     = Content (JObj [(''2024-01-19'', ex_record)])
   \<and> map_of [(''2024-01-19'', ex_record)] (isoformat ex_world (now_date ex_world)) \<noteq> None
   \<and> distinct (map fst [(''2024-01-19'', ex_record)])
   \<and> stores_after ex_world 5 \<lparr>movers_file = Content (JObj [(''2024-01-19'', ex_record)]),
                 cache_file = Missing, csv_file = None\<rparr>
     = \<lparr>movers_file = Content (JObj [(''2024-01-19'', ex_record)]),
                 cache_file = Missing, csv_file = None\<rparr>
   \<and> (\<exists>kvs'. load_json (movers_file (stores_after ex_world 5
           \<lparr>movers_file = Content (JObj [(''2024-01-19'', ex_record)]),
                 cache_file = Missing, csv_file = None\<rparr>)) = JObj kvs'
        \<and> distinct (map fst kvs'))"
proof -
  let ?st = "\<lparr>movers_file = Content (JObj [(''2024-01-19'', ex_record)]),
                 cache_file = Missing, csv_file = None\<rparr>"
  have a: "movers_file ?st = Content (JObj [(''2024-01-19'', ex_record)])"
    by simp
  have b: "map_of [(''2024-01-19'', ex_record)] (isoformat ex_world (now_date ex_world)) \<noteq> None"
    by code_simp
  have c: "load_json (movers_file ?st) = JObj [(''2024-01-19'', ex_record)]"
    "distinct (map fst [(''2024-01-19'', ex_record)])"
    by (simp_all add: load_json_def)
  from write_once[of ?st "[(''2024-01-19'', ex_record)]" ex_world 5] a b c
  show ?thesis by blast
qed

text \<open>
  C8. The numeric signal of an item is a close that is not null or a non-empty
  \<^verbatim>\<open>pct_change\<close> text. If no enriched item has one, \<^verbatim>\<open>run_and_persist\<close> returns with
  every file as it was. If some item has one, on a market day after the cutoff, with nothing
  stored under today's date yet and the write succeeding, the mover store afterwards holds
  the new entry under today's date.
\<close>

theorem signal_gate:
  "(scrape_top_gainers_and_losers env top_n = (g, l) \<and> enrich_pool env g = Inr g'
      \<and> enrich_pool env l = Inr l' \<and> \<not> list_ex has_signal (g' @ l')
      \<longrightarrow> run_and_persist env top_n st = Inr st)
   \<and> (market_day env \<and> 20 \<le> now_hour env \<and> save_ok env
      \<and> scrape_top_gainers_and_losers env top_n = (g, l) \<and> enrich_pool env g = Inr g'
      \<and> enrich_pool env l = Inr l' \<and> list_ex has_signal (g' @ l')
      \<and> load_json (movers_file st) = JObj kvs \<and> map_of kvs (isoformat env (now_date env)) = None
      \<longrightarrow> (\<exists>st'. run_and_persist env top_n st = Inr st'
            \<and> movers_file st' = Content (JObj (AList.update (isoformat env (now_date env))
                  (JObj [(''scraped_at'', JStr (now_iso env)), (''gainers'', JArr g'),
                         (''losers'', JArr l')]) kvs))))"
proof (intro conjI impI)
  assume "scrape_top_gainers_and_losers env top_n = (g, l) \<and> enrich_pool env g = Inr g'
      \<and> enrich_pool env l = Inr l' \<and> \<not> list_ex has_signal (g' @ l')"
  then show "run_and_persist env top_n st = Inr st"
    using persist_no_signal[of env top_n g l g' l' st] by blast
next
  assume h: "market_day env \<and> 20 \<le> now_hour env \<and> save_ok env
      \<and> scrape_top_gainers_and_losers env top_n = (g, l) \<and> enrich_pool env g = Inr g'
      \<and> enrich_pool env l = Inr l' \<and> list_ex has_signal (g' @ l')
      \<and> load_json (movers_file st) = JObj kvs \<and> map_of kvs (isoformat env (now_date env)) = None"
  then have "g' @ l' \<noteq> []" by auto
  with h have ne: "g @ l \<noteq> []"
    using enrich_pool_length[of env g g'] enrich_pool_length[of env l l'] by auto
  from h have gates: "market_day env" "20 \<le> now_hour env"
    "scrape_top_gainers_and_losers env top_n = (g, l)" by simp_all
  from h have en: "enrich_pool env g = Inr g'" "enrich_pool env l = Inr l'"
    and sig: "list_ex has_signal (g' @ l')" by blast+
  from h have store: "load_json (movers_file st) = JObj kvs"
    "map_of kvs (isoformat env (now_date env)) = None" "save_ok env" by simp_all
  show "\<exists>st'. run_and_persist env top_n st = Inr st'
            \<and> movers_file st' = Content (JObj (AList.update (isoformat env (now_date env))
                  (JObj [(''scraped_at'', JStr (now_iso env)), (''gainers'', JArr g'),
                         (''losers'', JArr l')]) kvs))"
    unfolding persist_signal[OF gates ne en sig]
    by (simp add: store ebind_simps has_date_def put_date_def refresh_csv_movers track_once_movers)
qed

theorem signal_gate_witness:
  "scrape_top_gainers_and_losers bare_world 5
     = ([JObj [(''symbol'', JStr ''NVDA''), (''name'', JStr ''''), (''price'', JStr ''''),
               (''change'', JStr ''''), (''pct_change'', JStr '''')]], [])
   \<and> \<not> list_ex has_signal
        ([JObj [(''symbol'', JStr ''NVDA''), (''name'', JStr ''''), (''price'', JStr ''''),
                (''change'', JStr ''''), (''pct_change'', JStr ''''), (''open'', JNull),
                (''close'', JNull), (''change_pts'', JNull)]] @ [])
   \<and> run_and_persist bare_world 5 no_files = Inr no_files
   \<and> market_day ex_world \<and> 20 \<le> now_hour ex_world \<and> save_ok ex_world
   \<and> load_json (movers_file no_files) = JObj []
   \<and> (\<exists>st'. run_and_persist ex_world 5 no_files = Inr st'
         \<and> movers_file st' = Content (JObj [(''2024-01-19'', ex_record)]))"
proof -
  let ?bare = "JObj [(''symbol'', JStr ''NVDA''), (''name'', JStr ''''), (''price'', JStr ''''),
               (''change'', JStr ''''), (''pct_change'', JStr '''')]"
  let ?bare' = "JObj [(''symbol'', JStr ''NVDA''), (''name'', JStr ''''), (''price'', JStr ''''),
                (''change'', JStr ''''), (''pct_change'', JStr ''''), (''open'', JNull),
                (''close'', JNull), (''change_pts'', JNull)]"
  have b1: "scrape_top_gainers_and_losers bare_world 5 = ([?bare], [])" by code_simp
  have b2: "enrich_pool bare_world [?bare] = Inr [?bare']" by code_simp
  have b3: "enrich_pool bare_world [] = Inr []" by simp
  have b4: "\<not> list_ex has_signal ([?bare'] @ [])" by code_simp
  let ?g = "[JObj [(''symbol'', JStr ''NVDA''), (''name'', JStr ''NVIDIA Corporation''),
        (''price'', JStr ''594.91''), (''change'', JStr ''+23.84''), (''pct_change'', JStr ''+4.17%'')]]"
  let ?l = "[JObj [(''symbol'', JStr ''HUM''), (''name'', JStr ''Humana Inc.''),
        (''price'', JStr ''412.50''), (''change'', JStr ''-35.04''), (''pct_change'', JStr ''-7.83%'')]]"
  let ?g' = "case attr ex_record ''gainers'' of Some (JArr xs) \<Rightarrow> xs"
  let ?l' = "case attr ex_record ''losers'' of Some (JArr xs) \<Rightarrow> xs"
  have e1: "scrape_top_gainers_and_losers ex_world 5 = (?g, ?l)" by code_simp
  have e2: "enrich_pool ex_world ?g = Inr ?g'" "enrich_pool ex_world ?l = Inr ?l'"
    by code_simp+
  have e3: "list_ex has_signal (?g' @ ?l')" by code_simp
  have e4: "market_day ex_world" "20 \<le> now_hour ex_world" "save_ok ex_world"
    "load_json (movers_file no_files) = JObj []"
    "map_of [] (isoformat ex_world (now_date ex_world)) = None"
    by code_simp+
  have e5: "JObj (AList.update (isoformat ex_world (now_date ex_world))
                  (JObj [(''scraped_at'', JStr (now_iso ex_world)), (''gainers'', JArr ?g'),
                         (''losers'', JArr ?l')]) []) = JObj [(''2024-01-19'', ex_record)]"
    by code_simp
  from signal_gate[of bare_world 5 "[?bare]" "[]" "[?bare']" "[]" no_files] b1 b2 b3 b4
  have first: "run_and_persist bare_world 5 no_files = Inr no_files" by blast
  from signal_gate[of ex_world 5 ?g ?l ?g' ?l' no_files "[]"] e1 e2 e3 e4
  have "\<exists>st'. run_and_persist ex_world 5 no_files = Inr st'
            \<and> movers_file st' = Content (JObj (AList.update (isoformat ex_world (now_date ex_world))
                  (JObj [(''scraped_at'', JStr (now_iso ex_world)), (''gainers'', JArr ?g'),
                         (''losers'', JArr ?l')]) []))"
    by blast
  then have second: "\<exists>st'. run_and_persist ex_world 5 no_files = Inr st'
         \<and> movers_file st' = Content (JObj [(''2024-01-19'', ex_record)])"
    unfolding e5 .
  from b1 b4 first e4 second show ?thesis by blast
qed


section \<open>Malformed stored values\<close>

text \<open>
  C9, as stated, fails for a cache value that is not a list: the tracker does not leave it
  as it is. With the empty object stored under \<^verbatim>\<open>AAPL|2024-01-02\<close>, its length 0 is
  below the cap, the first candidate day qualifies, and lines 207 to 209 replace the value by
  a list holding the new observation.
\<close>

theorem non_list_value_replaced:
  "fetch_one_round ex_world (Content one_mover) (Content (JObj [(ex_key, JObj [])])) MAX_DAYS_DEFAULT
     = Inr (Content (JObj [(ex_key,
              JArr [JObj [(''date'', JStr ''2024-01-03''), (''open'', JNum 10),
                          (''close'', JNum (1001 / 100)), (''pct_long'', JNum (1 / 50))]])]), 1)"
  by code_simp

lemma select_candidate_bad_date:
  assumes "parse_event_date env ev = None" "select_candidate env m ev t dl = Inr c"
  shows "c = None"
  using assms unfolding select_candidate_def
  by (auto simp: ebind_Inr split: if_splits)

lemma process_item_bad_date:
  assumes "parse_event_date env ev = None" "process_item env m ev it st = Inr st'"
  shows "st' = st"
  using assms(2)
proof (cases rule: process_item_cases)
  case same
  then show ?thesis .
next
  case (app s ticker cdate ov cv c')
  from select_candidate_bad_date[OF assms(1) app(3)] show ?thesis by simp
qed

lemma process_date_bad_date:
  assumes bad: "parse_event_date env ev = None" and run: "process_date env m movers ev st = Inr st'"
  shows "st' = st"
proof -
  have pool: "\<And>mt s s'. process_pool env m ev
      (case map_of movers ev of None \<Rightarrow> JObj [] | Some e \<Rightarrow> e) mt s = Inr s' \<Longrightarrow> s = s'"
  proof -
    fix mt s s'
    assume "process_pool env m ev (case map_of movers ev of None \<Rightarrow> JObj [] | Some e \<Rightarrow> e) mt s = Inr s'"
    then obtain items where "efold (process_item env m ev) items s = Inr s'"
      unfolding process_pool_def by (auto simp: ebind_Inr)
    then show "s = s'"
      by (rule efold_rel[where R = "(=)", rotated -1])
        (auto dest: process_item_bad_date[OF bad])
  qed
  from run have "st = st'"
    unfolding process_date_def Let_def
    by (rule efold_rel[where R = "(=)", rotated -1]) (auto dest: pool)
  then show ?thesis by simp
qed

lemma to_str_parsers [simp]:
  "to_str (env\<lparr>fromisoformat := f, strptime_ymd := g\<rparr>) = to_str env"
  by (intro ext) (simp add: to_str_def Let_def
      cong: if_cong json.case_cong option.case_cong prod.case_cong list.case_cong)

lemma clean_sym_parsers [simp]:
  "clean_sym (env\<lparr>fromisoformat := f, strptime_ymd := g\<rparr>) = clean_sym env"
  by (intro ext) (simp add: clean_sym_def Let_def
      cong: if_cong json.case_cong option.case_cong prod.case_cong list.case_cong)

lemma ensure_number_parsers [simp]:
  "ensure_number (env\<lparr>fromisoformat := f, strptime_ymd := g\<rparr>) = ensure_number env"
  by (intro ext) (simp add: ensure_number_def Let_def
      cong: if_cong json.case_cong option.case_cong prod.case_cong list.case_cong)

lemma parse_pct_parsers [simp]:
  "parse_pct (env\<lparr>fromisoformat := f, strptime_ymd := g\<rparr>) = parse_pct env"
  by (intro ext) (simp add: parse_pct_def Let_def
      cong: if_cong json.case_cong option.case_cong prod.case_cong list.case_cong)

lemma day_values_parsers [simp]:
  "day_values (env\<lparr>fromisoformat := f, strptime_ymd := g\<rparr>) = day_values env"
  by (intro ext) (simp add: day_values_def Let_def
      cong: if_cong json.case_cong option.case_cong prod.case_cong list.case_cong)

lemma fill_day_parsers [simp]:
  "fill_day (env\<lparr>fromisoformat := f, strptime_ymd := g\<rparr>) = fill_day env"
  by (intro ext) (simp add: fill_day_def Let_def
      cong: if_cong json.case_cong option.case_cong prod.case_cong list.case_cong)

lemma fill_pct_parsers [simp]:
  "fill_pct (env\<lparr>fromisoformat := f, strptime_ymd := g\<rparr>) = fill_pct env"
  by (intro ext) (simp add: fill_pct_def Let_def
      cong: if_cong json.case_cong option.case_cong prod.case_cong list.case_cong)

lemma direction_row_parsers [simp]:
  "direction_row (env\<lparr>fromisoformat := f, strptime_ymd := g\<rparr>) = direction_row env"
  by (intro ext) (simp add: direction_row_def Let_def
      cong: if_cong json.case_cong option.case_cong prod.case_cong list.case_cong)

lemma item_rows_parsers [simp]:
  "item_rows (env\<lparr>fromisoformat := f, strptime_ymd := g\<rparr>) = item_rows env"
  by (intro ext) (simp add: item_rows_def Let_def
      cong: if_cong json.case_cong option.case_cong prod.case_cong list.case_cong)

lemma agg_pool_parsers [simp]:
  "agg_pool (env\<lparr>fromisoformat := f, strptime_ymd := g\<rparr>) = agg_pool env"
  by (intro ext) (simp add: agg_pool_def Let_def
      cong: if_cong json.case_cong option.case_cong prod.case_cong list.case_cong)

lemma agg_date_parsers [simp]:
  "agg_date (env\<lparr>fromisoformat := f, strptime_ymd := g\<rparr>) = agg_date env"
  by (intro ext) (simp add: agg_date_def Let_def
      cong: if_cong json.case_cong option.case_cong prod.case_cong list.case_cong)

lemma populate_parsers:
  "populate_from_movers (env\<lparr>fromisoformat := f, strptime_ymd := g\<rparr>) mf cf csv
     = populate_from_movers env mf cf csv"
  by (simp add: populate_from_movers_def cong: json_file.case_cong json.case_cong)

text \<open>
  C9, amended. When the stored event date cannot be parsed, the tracker leaves the cache
  and the count as they are for every mover under that date and goes on with the remaining
  dates. The aggregator parses no event date: its result does not depend on the date
  parsers. A cache value that is not a list is not skipped by the tracker: when a pass
  appends under its key, the value stored afterwards is a list holding just the appended
  observation.
\<close>

theorem bad_date_skipped:
  "(parse_event_date env ev = None \<and> process_date env m movers ev st = Inr st'
      \<longrightarrow> st' = st
          \<and> efold (process_date env m movers) (ev # rest) st
              = efold (process_date env m movers) rest st)
   \<and> populate_from_movers (env\<lparr>fromisoformat := f, strptime_ymd := g\<rparr>) mf cf csv
       = populate_from_movers env mf cf csv
   \<and> (process_item env m ev it (c, n) = Inr (c', n') \<and> n' \<noteq> n
        \<and> py_get it ''symbol'' (JStr '''') = Inr s \<and> clean_sym env s = Inr ticker
        \<and> series c (ticker @ ''|'' @ ev) = Some v \<and> (\<forall>xs. v \<noteq> JArr xs)
      \<longrightarrow> (\<exists>cdate ov cv. series c' (ticker @ ''|'' @ ev) = Some (JArr [day_obj cdate ov cv])))"
proof (intro conjI impI)
  assume h: "parse_event_date env ev = None \<and> process_date env m movers ev st = Inr st'"
  then show "st' = st" using process_date_bad_date by blast
  with h show "efold (process_date env m movers) (ev # rest) st
              = efold (process_date env m movers) rest st" by simp
next
  show "populate_from_movers (env\<lparr>fromisoformat := f, strptime_ymd := g\<rparr>) mf cf csv
       = populate_from_movers env mf cf csv" by (rule populate_parsers)
next
  assume h: "process_item env m ev it (c, n) = Inr (c', n') \<and> n' \<noteq> n
        \<and> py_get it ''symbol'' (JStr '''') = Inr s \<and> clean_sym env s = Inr ticker
        \<and> series c (ticker @ ''|'' @ ev) = Some v \<and> (\<forall>xs. v \<noteq> JArr xs)"
  then have run: "process_item env m ev it (c, n) = Inr (c', n')" by simp
  from run show "\<exists>cdate ov cv. series c' (ticker @ ''|'' @ ev) = Some (JArr [day_obj cdate ov cv])"
  proof (cases rule: process_item_cases)
    case same
    with h show ?thesis by simp
  next
    case (app s2 ticker2 cdate ov cv c2)
    with h have same: "ticker2 = ticker" by simp
    from append_day_series[OF app(4)] app(5) same h
    have "series c' (ticker @ ''|'' @ ev) = Some (JArr [day_obj cdate ov cv])"
      by (auto split: json.splits)
    then show ?thesis by blast
  qed
qed

theorem bad_date_skipped_witness:
  "parse_event_date ex_world ''01/02/2024'' = None
   \<and> process_date ex_world 11 bad_date_entries ''01/02/2024'' (JObj [], 0) = Inr (JObj [], 0)
   \<and> efold (process_date ex_world 11 bad_date_entries) [''01/02/2024'', ''2024-01-02''] (JObj [], 0)
       = efold (process_date ex_world 11 bad_date_entries) [''2024-01-02''] (JObj [], 0)
   \<and> process_item ex_world 11 ''2024-01-02'' (JObj [(''symbol'', JStr ''AAPL'')])
         (JObj [(ex_key, JObj [])], 0)
       = Inr (JObj [(ex_key, JArr [day_obj ''2024-01-03'' (10004 / 1000) (10006 / 1000)])], 1)
   \<and> (\<exists>cdate ov cv.
         series (JObj [(ex_key, JArr [day_obj ''2024-01-03'' (10004 / 1000) (10006 / 1000)])])
           (''AAPL'' @ ''|'' @ ''2024-01-02'') = Some (JArr [day_obj cdate ov cv]))"
proof -
  let ?c' = "JObj [(ex_key, JArr [day_obj ''2024-01-03'' (10004 / 1000) (10006 / 1000)])]"
  have a1: "parse_event_date ex_world ''01/02/2024'' = None" by code_simp
  have a2: "process_date ex_world 11 bad_date_entries ''01/02/2024'' (JObj [], 0) = Inr (JObj [], 0)"
    by code_simp
  from bad_date_skipped[where env = ex_world and ev = "''01/02/2024''" and m = 11
      and movers = bad_date_entries and st = "(JObj [], 0)" and st' = "(JObj [], 0)"
      and rest = "[''2024-01-02'']"] a1 a2
  have first: "efold (process_date ex_world 11 bad_date_entries) [''01/02/2024'', ''2024-01-02''] (JObj [], 0)
       = efold (process_date ex_world 11 bad_date_entries) [''2024-01-02''] (JObj [], 0)"
    by blast
  have b1: "process_item ex_world 11 ''2024-01-02'' (JObj [(''symbol'', JStr ''AAPL'')])
         (JObj [(ex_key, JObj [])], 0) = Inr (?c', 1)"
    by code_simp
  have b2: "(1::nat) \<noteq> 0" by simp
  have b3: "py_get (JObj [(''symbol'', JStr ''AAPL'')]) ''symbol'' (JStr '''') = Inr (JStr ''AAPL'')"
    "clean_sym ex_world (JStr ''AAPL'') = Inr ''AAPL''"
    "series (JObj [(ex_key, JObj [])]) (''AAPL'' @ ''|'' @ ''2024-01-02'') = Some (JObj [])"
    by code_simp+
  have b4: "\<forall>xs. JObj [] \<noteq> JArr xs" by simp
  from bad_date_skipped[where env = ex_world and ev = "''2024-01-02''" and m = 11
      and it = "JObj [(''symbol'', JStr ''AAPL'')]" and c = "JObj [(ex_key, JObj [])]" and n = 0
      and c' = ?c' and n' = 1 and s = "JStr ''AAPL''" and ticker = "''AAPL''" and v = "JObj []"]
    b1 b2 b3 b4
  have second: "\<exists>cdate ov cv. series ?c' (''AAPL'' @ ''|'' @ ''2024-01-02'')
      = Some (JArr [day_obj cdate ov cv])"
    by blast
  from a1 a2 first b1 second show ?thesis by blast
qed


section \<open>Aggregator: the summary rows\<close>

lemma header_cols_all:
  "\<forall>i \<in> set [0..<11]. HEADER_INDEX (col_pct i) = Some (6 + 3 * i)
      \<and> HEADER_INDEX (col_open i) = Some (7 + 3 * i)
      \<and> HEADER_INDEX (col_close i) = Some (8 + 3 * i)"
  by code_simp

lemma header_cols:
  assumes "i < 11"
  shows "HEADER_INDEX (col_pct i) = Some (6 + 3 * i)"
    "HEADER_INDEX (col_open i) = Some (7 + 3 * i)"
    "HEADER_INDEX (col_close i) = Some (8 + 3 * i)"
  using header_cols_all assms by auto

lemma length_HEADER: "length HEADER = 39"
  by (simp add: HEADER_def)

lemma length_blank_row: "length blank_row = 39"
  unfolding blank_row_def by (simp only: length_replicate length_HEADER)













section \<open>Aggregator: an observation with open 0\<close>

lemma set_col_length: "set_col col v r = Inr r' \<Longrightarrow> length r' = length r"
  by (auto simp: set_col_def split: option.splits)

lemma set_col_pct:
  assumes "j < 11"
  shows "set_col (col_pct j) v r = Inr (r[6 + 3 * j := v])"
  using assms by (simp add: set_col_def header_cols)

lemma bucket_append_other:
  assumes "bucket_append k j p bs = Inr bs'" "j \<noteq> i"
  shows "bucket_at bs' key i = bucket_at bs key i"
  using assms
  by (auto simp: bucket_append_def bucket_at_def update_conv' split: option.splits if_splits)

lemma day_values_zero_open:
  assumes "attr d ''open'' = Some (JNum 0)" "attr d ''pct_long'' = None"
  shows "\<exists>cv. day_values env d = Inr (Some 0, cv, None)"
  using assms
  by (auto simp: attr_def day_values_def py_get_def ebind_simps ensure_number_JNum
      ensure_number_JNull Let_def split: json.splits option.splits)

text \<open>The first loop: the row keeps its length, and a bucket changes only at the offset of the pass.\<close>

lemma fill_day_length:
  assumes "fill_day env label dl j (r, bs) = Inr (r', bs')"
  shows "length r' = length r"
  using assms unfolding fill_day_def
  by (auto simp: ebind_Inr dest!: set_col_length split: if_splits option.splits prod.splits)

lemma fill_day_other:
  assumes "fill_day env label dl j (r, bs) = Inr (r', bs')" "j \<noteq> i"
  shows "bucket_at bs' key i = bucket_at bs key i"
  using assms unfolding fill_day_def
  by (auto simp: ebind_Inr bucket_append_other split: if_splits option.splits prod.splits)

lemma fill_day_zero_open:
  assumes "fill_day env label (JArr xs) i (r, bs) = Inr (r', bs')" "i < length xs"
    "attr (xs ! i) ''open'' = Some (JNum 0)" "attr (xs ! i) ''pct_long'' = None"
  shows "bs' = bs"
proof -
  from day_values_zero_open[OF assms(3,4), of env]
  obtain cv where dv: "day_values env (xs ! i) = Inr (Some 0, cv, None)" by blast
  from assms(1,2) show ?thesis
    unfolding fill_day_def
    by (auto simp: ebind_Inr py_len_def py_index_def dv)
qed

lemma fill_pct_length:
  assumes "fill_pct env dir dl j r = Inr r'"
  shows "length r' = length r"
  using assms unfolding fill_pct_def
  by (auto simp: ebind_Inr dest!: set_col_length split: if_splits option.splits prod.splits)

lemma fill_pct_other:
  assumes "fill_pct env dir dl j r = Inr r'" "j < 11" "j \<noteq> i"
  shows "r' ! (6 + 3 * i) = r ! (6 + 3 * i)"
  using assms unfolding fill_pct_def
  by (auto simp: ebind_Inr set_col_pct split: if_splits option.splits prod.splits)

lemma fill_pct_zero_open:
  assumes "fill_pct env dir (JArr xs) i r = Inr r'" "i < length xs" "i < 11" "length r = 39"
    "attr (xs ! i) ''open'' = Some (JNum 0)" "attr (xs ! i) ''pct_long'' = None"
  shows "r' ! (6 + 3 * i) = ''''"
proof -
  from day_values_zero_open[OF assms(5,6), of env]
  obtain cv where dv: "day_values env (xs ! i) = Inr (Some 0, cv, None)" by blast
  from assms(1-4) show ?thesis
    unfolding fill_pct_def
    by (auto simp: ebind_Inr py_len_def py_index_def dv set_col_pct)
qed


lemma fill_day_loop:
  assumes run: "efold (fill_day env label (JArr xs)) js (r, bs) = Inr (r', bs')"
    and i: "i < length xs" "attr (xs ! i) ''open'' = Some (JNum 0)" "attr (xs ! i) ''pct_long'' = None"
  shows "length r' = length r \<and> (\<forall>key. bucket_at bs' key i = bucket_at bs key i)"
proof -
  have step: "length a' = length a \<and> (\<forall>key. bucket_at b' key i = bucket_at b key i)"
    if f: "fill_day env label (JArr xs) j (a, b) = Inr (a', b')" for j a b a' b'
  proof (cases "j = i")
    case True
    with f have "fill_day env label (JArr xs) i (a, b) = Inr (a', b')" by simp
    from fill_day_zero_open[OF this i] fill_day_length[OF f] show ?thesis by simp
  next
    case False
    from fill_day_other[OF f False] fill_day_length[OF f] show ?thesis by simp
  qed
  from run have "length (fst (r', bs')) = length (fst (r, bs))
      \<and> (\<forall>key. bucket_at (snd (r', bs')) key i = bucket_at (snd (r, bs)) key i)"
    by (rule efold_rel[where R = "\<lambda>s s'. length (fst s') = length (fst s)
      \<and> (\<forall>key. bucket_at (snd s') key i = bucket_at (snd s) key i)", rotated -1])
      (use step in auto)
  then show ?thesis by simp
qed

lemma fill_pct_loop:
  assumes "efold (fill_pct env dir (JArr xs)) js r = Inr r'" "\<forall>j \<in> set js. j < 11"
    "length r = 39" "i < length xs" "i < 11"
    "attr (xs ! i) ''open'' = Some (JNum 0)" "attr (xs ! i) ''pct_long'' = None"
  shows "length r' = 39 \<and> r' ! (6 + 3 * i) = (if i \<in> set js then '''' else r ! (6 + 3 * i))"
  using assms(1-3)
proof (induction js arbitrary: r)
  case Nil
  then show ?case by simp
next
  case (Cons j js)
  from Cons.prems(1) obtain r1 where first: "fill_pct env dir (JArr xs) j r = Inr r1"
    and rest: "efold (fill_pct env dir (JArr xs)) js r1 = Inr r'"
    by (auto split: sum.splits)
  from fill_pct_length[OF first] Cons.prems(3) have len1: "length r1 = 39" by simp
  from Cons.prems(2) have js: "\<forall>j \<in> set js. j < 11" and j: "j < 11" by simp_all
  from Cons.IH[OF rest js len1]
  have ih: "length r' = 39" "r' ! (6 + 3 * i) = (if i \<in> set js then '''' else r1 ! (6 + 3 * i))"
    by simp_all
  show ?case
  proof (cases "j = i")
    case True
    with first fill_pct_zero_open[of env dir xs i r r1] assms(4-7) Cons.prems(3)
    have "r1 ! (6 + 3 * i) = ''''" by simp
    with ih True show ?thesis by simp
  next
    case False
    from fill_pct_other[OF first j False] ih False show ?thesis by simp
  qed
qed

lemma direction_row_zero_open:
  assumes "direction_row env (JArr xs) base dir rows = Inr rows'" "length base = 39"
    "i < length xs" "i < 11"
    "attr (xs ! i) ''open'' = Some (JNum 0)" "attr (xs ! i) ''pct_long'' = None"
  shows "\<exists>r. rows' = rows @ [r] \<and> r ! (6 + 3 * i) = ''''"
proof -
  from assms(1) obtain r0 r where r0: "set_col ''direction'' dir base = Inr r0"
    and loop: "efold (fill_pct env dir (JArr xs)) [0..<11] r0 = Inr r"
    and rows': "rows' = rows @ [r]"
    unfolding direction_row_def by (auto simp: ebind_Inr)
  from set_col_length[OF r0] assms(2) have len0: "length r0 = 39" by simp
  have idx: "\<forall>j \<in> set [0..<11]. j < (11::nat)" by simp
  from fill_pct_loop[OF loop idx len0 assms(3-6)] assms(4) have "r ! (6 + 3 * i) = ''''"
    by simp
  with rows' show ?thesis by blast
qed

text \<open>
  C6. For a mover whose stored series has, at offset \<open>i\<close>, an observation with open 0 and
  no \<^verbatim>\<open>pct_long\<close> field: reading the observation raises nothing and gives no return;
  the two rows written for the mover (long and short) have a blank cell in the column
  \<^verbatim>\<open>Day i+1 %\<close> (index \<open>6 + 3 * i\<close>, by \<open>header_cols\<close>); and every bucket holds at
  offset \<open>i\<close> the returns it held before, so the observation enters none of the four
  cohorts.
\<close>

theorem zero_open_excluded:
  assumes run: "item_rows env cache date_key mover_type it (rows, bs) = Inr (rows', bs')"
    and sym: "py_get it ''symbol'' (JStr '''') = Inr s" "clean_sym env s = Inr ticker"
    and days: "cache_days cache (ticker @ ''|'' @ date_key) = JArr xs"
    and i: "i < length xs" "i < 11"
    and zero: "attr (xs ! i) ''open'' = Some (JNum 0)" "attr (xs ! i) ''pct_long'' = None"
  shows "(\<exists>cv. day_values env (xs ! i) = Inr (Some 0, cv, None))
       \<and> (\<exists>long short. rows' = rows @ [long, short]
             \<and> long ! (6 + 3 * i) = '''' \<and> short ! (6 + 3 * i) = '''')
       \<and> (\<forall>key. bucket_at bs' key i = bucket_at bs key i)"
proof -
  let ?label = "if mover_type = ''gainers'' then ''gainer'' else ''loser''"
  from run sym days obtain r5 base where
    len5: "length r5 = 39"
    and loop1: "efold (fill_day env ?label (JArr xs)) [0..<11] (r5, bs) = Inr (base, bs')"
    and loop2: "efold (direction_row env (JArr xs) base) [''long'', ''short''] rows = Inr rows'"
    unfolding item_rows_def Let_def
    by (auto simp: ebind_Inr length_blank_row simp del: efold.simps dest!: set_col_length)
  from fill_day_loop[OF loop1 i(1) zero] len5
  have base: "length base = 39" and buckets: "\<forall>key. bucket_at bs' key i = bucket_at bs key i"
    by simp_all
  from loop2 obtain rows1 where d1: "direction_row env (JArr xs) base ''long'' rows = Inr rows1"
    and d2: "direction_row env (JArr xs) base ''short'' rows1 = Inr rows'"
    by (auto split: sum.splits)
  from direction_row_zero_open[OF d1 base i zero]
  obtain long where long: "rows1 = rows @ [long]" "long ! (6 + 3 * i) = ''''" by blast
  from direction_row_zero_open[OF d2 base i zero]
  obtain short where short: "rows' = rows1 @ [short]" "short ! (6 + 3 * i) = ''''" by blast
  from long short have "\<exists>long short. rows' = rows @ [long, short]
             \<and> long ! (6 + 3 * i) = '''' \<and> short ! (6 + 3 * i) = ''''"
    by simp
  with day_values_zero_open[OF zero, of env] buckets show ?thesis by blast
qed

theorem zero_open_excluded_witness:
  "py_get (JObj [(''symbol'', JStr ''AAPL'')]) ''symbol'' (JStr '''') = Inr (JStr ''AAPL'')
   \<and> clean_sym ex_world (JStr ''AAPL'') = Inr ''AAPL''
   \<and> cache_days three_days (''AAPL'' @ ''|'' @ ''2024-01-02'') = JArr (take 3 full_series)
   \<and> 2 < length (take 3 full_series) \<and> (2::nat) < 11
   \<and> attr (take 3 full_series ! 2) ''open'' = Some (JNum 0)
   \<and> attr (take 3 full_series ! 2) ''pct_long'' = None
   \<and> (\<exists>rows' bs'.
         item_rows ex_world three_days ''2024-01-02'' ''gainers'' (JObj [(''symbol'', JStr ''AAPL'')])
           ([], init_buckets) = Inr (rows', bs')
       \<and> (\<exists>long short. rows' = [long, short] \<and> long ! 12 = '''' \<and> short ! 12 = '''')
       \<and> (\<forall>key. bucket_at bs' key 2 = bucket_at init_buckets key 2))"
proof -
  let ?it = "JObj [(''symbol'', JStr ''AAPL'')]"
  have h: "py_get ?it ''symbol'' (JStr '''') = Inr (JStr ''AAPL'')"
    "clean_sym ex_world (JStr ''AAPL'') = Inr ''AAPL''"
    "cache_days three_days (''AAPL'' @ ''|'' @ ''2024-01-02'') = JArr (take 3 full_series)"
    "2 < length (take 3 full_series)" "(2::nat) < 11"
    "attr (take 3 full_series ! 2) ''open'' = Some (JNum 0)"
    "attr (take 3 full_series ! 2) ''pct_long'' = None"
    by code_simp+
  have "case item_rows ex_world three_days ''2024-01-02'' ''gainers'' ?it ([], init_buckets) of
          Inl e \<Rightarrow> False | Inr r \<Rightarrow> True"
    by code_simp
  then obtain rows' bs' where run:
    "item_rows ex_world three_days ''2024-01-02'' ''gainers'' ?it ([], init_buckets) = Inr (rows', bs')"
    by (auto split: sum.splits)
  from zero_open_excluded[OF run h]
  have "(\<exists>long short. rows' = [] @ [long, short]
             \<and> long ! (6 + 3 * 2) = '''' \<and> short ! (6 + 3 * 2) = '''')
       \<and> (\<forall>key. bucket_at bs' key 2 = bucket_at init_buckets key 2)"
    by blast
  then have "(\<exists>long short. rows' = [long, short] \<and> long ! 12 = '''' \<and> short ! 12 = '''')
       \<and> (\<forall>key. bucket_at bs' key 2 = bucket_at init_buckets key 2)"
    by simp
  with run h show ?thesis by blast
qed


section \<open>Exceptions leaving the top-level operations\<close>

text \<open>
  C10. No exception should leave \<^verbatim>\<open>fetch_one_round\<close> or \<^verbatim>\<open>populate_from_movers\<close>.
  With a mover whose symbol is one blank, \<^verbatim>\<open>_clean_sym\<close> raises IndexError outside
  every \<^verbatim>\<open>try\<close>, and the exception leaves both operations; the mover listed after it
  is not processed. With the number 5 stored in the cache under a mover's key,
  \<^verbatim>\<open>len(days_list)\<close> raises TypeError in both operations.
\<close>

theorem blank_symbol_raises:
  "fetch_one_round ex_world (Content blank_movers) (Content (JObj [])) MAX_DAYS_DEFAULT
     = Inl IndexError
   \<and> populate_from_movers ex_world (Content blank_movers) (Content (JObj [])) None
     = Inl IndexError
   \<and> fetch_one_round ex_world (Content one_mover) (Content (JObj [(ex_key, JNum 5)])) MAX_DAYS_DEFAULT
     = Inl TypeError
   \<and> populate_from_movers ex_world (Content one_mover) (Content (JObj [(ex_key, JNum 5)])) None
     = Inl TypeError"
  by code_simp

end
